theory Spec2Isabelle
  imports Complex_Main
begin

section \<open>The random source\<close>

text \<open>
  The program draws from Python's global generator. The generator is modelled as the
  stream of its future raw outputs; each library call consumes the head of the stream.
  \<^item> \<open>random.random()\<close> returns \<open>k / 2^53\<close> for a 53-bit \<open>k\<close>, a value of \<open>[0, 1)\<close>;
  \<^item> \<open>random.randint(a, b)\<close> returns \<open>a\<close> plus a draw below \<open>b - a + 1\<close>;
  \<^item> \<open>random.uniform(a, b)\<close> is \<open>a + (b - a) * random()\<close>.
  Floats are idealised as reals. Every \<open>randint\<close> of the program has \<open>a \<le> b\<close>; the
  library raises on an empty range, which is not modelled.
\<close>

type_synonym rng = "nat \<Rightarrow> nat"

definition next_rng :: "rng \<Rightarrow> rng" where
  "next_rng g = (\<lambda>k. g (Suc k))"

definition random_random :: "rng \<Rightarrow> real \<times> rng" where
  "random_random g = (real (g 0 mod 2 ^ 53) / 2 ^ 53, next_rng g)"

definition randint :: "int \<Rightarrow> int \<Rightarrow> rng \<Rightarrow> int \<times> rng" where
  "randint a b g = (a + int (g 0 mod nat (b - a + 1)), next_rng g)"

definition uniform :: "real \<Rightarrow> real \<Rightarrow> rng \<Rightarrow> real \<times> rng" where
  "uniform a b g = (case random_random g of (u, g') \<Rightarrow> (a + (b - a) * u, g'))"

section \<open>agents.py: the decision of an agent\<close>

record MemeAgent =
  name :: string
  strategy :: string
  address :: string

definition STRATEGIES :: "string list" where
  "STRATEGIES = [''Sniper'', ''Hodler'', ''Degen'', ''CopyTrader'', ''Whale'']"

text \<open>
  \<open>MemeAgent.execute_strategy\<close>: the decision starts as \<open>("hold", 0)\<close> and is overwritten
  in the branch of the agent's strategy. A strategy outside the five known ones falls
  through every \<open>elif\<close> and holds.
\<close>

definition execute_strategy :: "string \<Rightarrow> real \<Rightarrow> rng \<Rightarrow> (string \<times> int) \<times> rng" where
  "execute_strategy strat market_price g =
    (if strat = ''Sniper'' then
       (if market_price < 4 then
          (case random_random g of (u, g1) \<Rightarrow>
             if u < 6 / 10 then (case randint 30 80 g1 of (n, g2) \<Rightarrow> ((''buy'', n), g2))
             else ((''hold'', 0), g1))
        else
          (case random_random g of (u, g1) \<Rightarrow>
             if u < 15 / 100 then (case randint 10 30 g1 of (n, g2) \<Rightarrow> ((''buy'', n), g2))
             else ((''hold'', 0), g1)))
     else if strat = ''Hodler'' then
       (case random_random g of (u, g1) \<Rightarrow>
          if u < 35 / 100 then (case randint 20 60 g1 of (n, g2) \<Rightarrow> ((''buy'', n), g2))
          else ((''hold'', 0), g1))
     else if strat = ''Degen'' then
       (case random_random g of (roll, g1) \<Rightarrow>
          if roll < 4 / 10 then (case randint 15 70 g1 of (n, g2) \<Rightarrow> ((''buy'', n), g2))
          else if roll < 7 / 10 then (case randint 10 40 g1 of (n, g2) \<Rightarrow> ((''sell'', n), g2))
          else ((''hold'', 0), g1))
     else if strat = ''CopyTrader'' then
       (if market_price > 6 then
          (case random_random g of (u, g1) \<Rightarrow>
             if u < 5 / 10 then (case randint 20 60 g1 of (n, g2) \<Rightarrow> ((''buy'', n), g2))
             else ((''hold'', 0), g1))
        else if market_price < 3 then
          (case random_random g of (u, g1) \<Rightarrow>
             if u < 3 / 10 then (case randint 10 30 g1 of (n, g2) \<Rightarrow> ((''sell'', n), g2))
             else ((''hold'', 0), g1))
        else
          (case random_random g of (u, g1) \<Rightarrow>
             if u < 3 / 10 then (case randint 10 40 g1 of (n, g2) \<Rightarrow> ((''buy'', n), g2))
             else ((''hold'', 0), g1)))
     else if strat = ''Whale'' then
       (case random_random g of (u, g1) \<Rightarrow>
          if u < 25 / 100 then (case randint 40 80 g1 of (n, g2) \<Rightarrow> ((''buy'', n), g2))
          else ((''hold'', 0), g1))
     else ((''hold'', 0), g))"

text \<open>
  The quantity range of each strategy, read off the \<open>randint\<close> calls of its branch of
  \<open>execute_strategy\<close> (the least lower and the greatest upper bound over the branch).
  The docstring of \<open>execute_strategy\<close> gives 10-80 for all of them.
\<close>

definition quantity_range :: "string \<Rightarrow> int \<times> int" where
  "quantity_range strat =
    (if strat = ''Sniper'' then (10, 80)
     else if strat = ''Hodler'' then (20, 60)
     else if strat = ''Degen'' then (10, 70)
     else if strat = ''CopyTrader'' then (10, 60)
     else if strat = ''Whale'' then (40, 80)
     else (0, 0))"

section \<open>The ledger node\<close>

text \<open>
  The program talks to the chain through \<open>w3\<close> and \<open>arena_contract\<close>. Every remote call
  can raise. The node is modelled as the stream of its future replies (the reply to the
  next call is the head) together with the log of the calls made so far.
  \<open>build_transaction\<close>, \<open>sign_transaction\<close> and \<open>send_raw_transaction\<close> form one
  submission, which raises when one of its stages does; the gas price and the chain id
  are fixed metadata and left out.
\<close>

datatype error = RpcError | KeyError

datatype txn =
    RegisterAgent string
  | SetBettingActive bool
  | EndRound string
  | Transfer string int

datatype rpc =
    GetTransactionCount
  | GetBalance string
  | IsAgent string
  | SendRawTransaction txn int

record node_reply =
  transaction_count :: "int option"
  balance_of :: "string \<Rightarrow> int option"
  is_agent :: "string \<Rightarrow> bool option"
  accepts :: "txn \<Rightarrow> int \<Rightarrow> bool"

record ledger =
  replies :: "nat \<Rightarrow> node_reply"
  calls :: "rpc list"

definition ask :: "rpc \<Rightarrow> ledger \<Rightarrow> ledger" where
  "ask c L = \<lparr>replies = (\<lambda>k. replies L (Suc k)), calls = calls L @ [c]\<rparr>"

text \<open>A query returns \<open>None\<close> when the call raises.\<close>

definition get_transaction_count :: "ledger \<Rightarrow> int option \<times> ledger" where
  "get_transaction_count L = (transaction_count (replies L 0), ask GetTransactionCount L)"

definition get_balance :: "string \<Rightarrow> ledger \<Rightarrow> int option \<times> ledger" where
  "get_balance addr L = (balance_of (replies L 0) addr, ask (GetBalance addr) L)"

definition isAgent :: "string \<Rightarrow> ledger \<Rightarrow> bool option \<times> ledger" where
  "isAgent addr L = (is_agent (replies L 0) addr, ask (IsAgent addr) L)"

text \<open>A submission returns \<open>False\<close> when it raises.\<close>

definition send_transaction :: "txn \<Rightarrow> int \<Rightarrow> ledger \<Rightarrow> bool \<times> ledger" where
  "send_transaction tx nonce L =
     (accepts (replies L 0) tx nonce, ask (SendRawTransaction tx nonce) L)"

section \<open>main.py: funding and registration\<close>

text \<open>
  \<open>fund_agents\<close> of \<open>src/main.py\<close>: the nonce is read outside the \<open>try\<close>, so a failure
  there leaves the function; the body of the loop is inside a \<open>try\<close> of its own.
  The thresholds are \<open>to_wei(0.005, "ether")\<close> and \<open>to_wei(0.02, "ether")\<close>.
\<close>

definition fund_one :: "MemeAgent \<Rightarrow> int \<times> ledger \<Rightarrow> int \<times> ledger" where
  "fund_one agent s =
    (case s of (nonce, L) \<Rightarrow>
      (case get_balance (address agent) L of (r, L1) \<Rightarrow>
        (case r of
           None \<Rightarrow> (nonce, L1)
         | Some bal \<Rightarrow>
            if bal < 5000000000000000 then
              (case send_transaction (Transfer (address agent) 20000000000000000) nonce L1 of
                 (ok, L2) \<Rightarrow> if ok then (nonce + 1, L2) else (nonce, L2))
            else (nonce, L1))))"

definition fund_agents :: "MemeAgent list \<Rightarrow> ledger \<Rightarrow> error option \<times> ledger" where
  "fund_agents agents L =
    (case get_transaction_count L of (r, L1) \<Rightarrow>
      (case r of
         None \<Rightarrow> (Some RpcError, L1)
       | Some nonce \<Rightarrow> (None, snd (fold fund_one agents (nonce, L1)))))"

text \<open>\<open>register_agents\<close> of \<open>src/main.py\<close>, with the same shape.\<close>

definition register_one :: "MemeAgent \<Rightarrow> int \<times> ledger \<Rightarrow> int \<times> ledger" where
  "register_one agent s =
    (case s of (nonce, L) \<Rightarrow>
      (case isAgent (address agent) L of (r, L1) \<Rightarrow>
        (case r of
           None \<Rightarrow> (nonce, L1)
         | Some registered \<Rightarrow>
            if registered then (nonce, L1)
            else
              (case send_transaction (RegisterAgent (address agent)) nonce L1 of
                 (ok, L2) \<Rightarrow> if ok then (nonce + 1, L2) else (nonce, L2)))))"

definition register_agents :: "MemeAgent list \<Rightarrow> ledger \<Rightarrow> error option \<times> ledger" where
  "register_agents agents L =
    (case get_transaction_count L of (r, L1) \<Rightarrow>
      (case r of
         None \<Rightarrow> (Some RpcError, L1)
       | Some nonce \<Rightarrow> (None, snd (fold register_one agents (nonce, L1)))))"

section \<open>backend/main.py: funding and registration\<close>

text \<open>
  \<open>src/backend/main.py\<close> has the same two functions without any \<open>try\<close>: the first call
  that raises ends the loop and the function.
\<close>

fun backend_fund_loop :: "MemeAgent list \<Rightarrow> int \<Rightarrow> ledger \<Rightarrow> error option \<times> ledger" where
  "backend_fund_loop [] nonce L = (None, L)"
| "backend_fund_loop (agent # agents) nonce L =
    (case get_balance (address agent) L of (r, L1) \<Rightarrow>
      (case r of
         None \<Rightarrow> (Some RpcError, L1)
       | Some bal \<Rightarrow>
          if bal < 5000000000000000 then
            (case send_transaction (Transfer (address agent) 20000000000000000) nonce L1 of
               (ok, L2) \<Rightarrow>
                 if ok then backend_fund_loop agents (nonce + 1) L2 else (Some RpcError, L2))
          else backend_fund_loop agents nonce L1))"

definition backend_fund_agents :: "MemeAgent list \<Rightarrow> ledger \<Rightarrow> error option \<times> ledger" where
  "backend_fund_agents agents L =
    (case get_transaction_count L of (r, L1) \<Rightarrow>
      (case r of
         None \<Rightarrow> (Some RpcError, L1)
       | Some nonce \<Rightarrow> backend_fund_loop agents nonce L1))"

fun backend_register_loop ::
  "MemeAgent list \<Rightarrow> int \<Rightarrow> ledger \<Rightarrow> error option \<times> ledger" where
  "backend_register_loop [] nonce L = (None, L)"
| "backend_register_loop (agent # agents) nonce L =
    (case isAgent (address agent) L of (r, L1) \<Rightarrow>
      (case r of
         None \<Rightarrow> (Some RpcError, L1)
       | Some registered \<Rightarrow>
          if registered then backend_register_loop agents nonce L1
          else
            (case send_transaction (RegisterAgent (address agent)) nonce L1 of
               (ok, L2) \<Rightarrow>
                 if ok then backend_register_loop agents (nonce + 1) L2
                 else (Some RpcError, L2))))"

definition backend_register_agents ::
  "MemeAgent list \<Rightarrow> ledger \<Rightarrow> error option \<times> ledger" where
  "backend_register_agents agents L =
    (case get_transaction_count L of (r, L1) \<Rightarrow>
      (case r of
         None \<Rightarrow> (Some RpcError, L1)
       | Some nonce \<Rightarrow> backend_register_loop agents nonce L1))"

text \<open>
  \<open>main\<close> of \<open>src/backend/main.py\<close> up to the call of \<open>market_loop\<close>: funding, then
  registration. The market loop is entered only when the result is \<open>None\<close>; an error
  leaves \<open>main\<close> and ends the process.
\<close>

definition backend_main :: "MemeAgent list \<Rightarrow> ledger \<Rightarrow> error option \<times> ledger" where
  "backend_main agents L =
    (case backend_fund_agents agents L of (r, L1) \<Rightarrow>
      (case r of
         Some e \<Rightarrow> (Some e, L1)
       | None \<Rightarrow> backend_register_agents agents L1))"

section \<open>main.py: the market loop\<close>

type_synonym clock = "nat \<Rightarrow> real"

text \<open>\<open>time.time()\<close> reads the head of the stream of future clock readings.\<close>

definition time_time :: "clock \<Rightarrow> real \<times> clock" where
  "time_time c = (c 0, (\<lambda>k. c (Suc k)))"

text \<open>Python's \<open>int\<close> on a float truncates towards zero.\<close>

definition py_int :: "real \<Rightarrow> int" where
  "py_int x = (if 0 \<le> x then \<lfloor>x\<rfloor> else \<lceil>x\<rceil>)"

record entry =
  time :: int
  price :: real
  balances :: "string \<rightharpoonup> int"

record live =
  phase :: string
  roundEndTime :: real
  history :: "entry list"

definition live_state_init :: live where
  "live_state_init = \<lparr>phase = ''WAITING'', roundEndTime = 0, history = []\<rparr>"

text \<open>
  \<open>update_state\<close> overwrites the three keys of \<open>live_state\<close>; the copy of the list is the
  list itself here. The best-effort write of \<open>history.json\<close> changes nothing the
  program reads back.
\<close>

definition update_state :: "string \<Rightarrow> real \<Rightarrow> entry list \<Rightarrow> live \<Rightarrow> live" where
  "update_state ph round_end_time h ls =
     ls\<lparr>phase := ph, roundEndTime := round_end_time, history := h\<rparr>"

text \<open>\<open>history.append(entry)\<close>, then \<open>history.pop(0)\<close> when more than 50 are held.\<close>

definition history_append :: "entry list \<Rightarrow> entry \<Rightarrow> entry list" where
  "history_append h e = (let h' = h @ [e] in if length h' > 50 then tl h' else h')"

text \<open>
  \<open>market_loop\<close> never returns, so it is a machine: a state holds the local variables,
  the position in the function and the environment (generator, clock, node), and one
  step runs from one loop head to the next.
  \<^item> \<open>RoundStart\<close>: the head of the outer \<open>while True\<close>;
  \<^item> \<open>BettingLoop\<close>: the head of \<open>while time.time() < betting_end\<close>;
  \<^item> \<open>GameLoop\<close>: the head of the inner \<open>while True\<close>;
  \<^item> \<open>Halted\<close>: an exception has left \<open>market_loop\<close>.
  \<open>betting_end\<close>, \<open>start_time\<close> and \<open>round_balances\<close> are unbound until first assigned;
  they start as 0 and the empty dictionary. The sleeps only let the clock advance.
  A state that halts on a \<open>KeyError\<close> keeps the balances it had before the tick; no
  reachable state does (lemma \<open>step_dom\<close>).

  The machine is the \<open>market_loop\<close> of \<open>src/main.py\<close>. The one of \<open>src/backend/main.py\<close>
  has the same loop bodies statement for statement; it writes each snapshot to
  \<open>history.json\<close> instead of \<open>live_state\<close> and calls its own \<open>fund_agents\<close>.
\<close>

datatype pc = RoundStart | BettingLoop | GameLoop | Halted

record loop =
  pc :: pc
  gen :: rng
  clk :: clock
  w3 :: ledger
  hist :: "entry list"
  round_balances :: "string \<rightharpoonup> int"
  betting_end :: real
  start_time :: real
  live_state :: live

definition market_loop_init :: "rng \<Rightarrow> clock \<Rightarrow> ledger \<Rightarrow> loop" where
  "market_loop_init g c L =
     \<lparr>pc = RoundStart, gen = g, clk = c, w3 = L, hist = [],
      round_balances = Map.empty, betting_end = 0, start_time = 0,
      live_state = live_state_init\<rparr>"

text \<open>The two \<open>setBettingActive\<close> blocks and the \<open>endRound\<close> block: all inside a \<open>try\<close>.\<close>

definition set_betting_active :: "bool \<Rightarrow> ledger \<Rightarrow> ledger" where
  "set_betting_active flag L =
    (case get_transaction_count L of (r, L1) \<Rightarrow>
      (case r of
         None \<Rightarrow> L1
       | Some nonce \<Rightarrow> snd (send_transaction (SetBettingActive flag) nonce L1)))"

definition end_round :: "MemeAgent option \<Rightarrow> ledger \<Rightarrow> ledger" where
  "end_round winner_agent L =
    (case winner_agent of
       None \<Rightarrow> L
     | Some w \<Rightarrow>
        (case get_transaction_count L of (r, L1) \<Rightarrow>
          (case r of
             None \<Rightarrow> L1
           | Some nonce \<Rightarrow> snd (send_transaction (EndRound (address w)) nonce L1))))"

text \<open>\<open>{agent.name: 0 for agent in agents}\<close>\<close>

definition zero_balances :: "MemeAgent list \<Rightarrow> (string \<rightharpoonup> int)" where
  "zero_balances agents = fold (\<lambda>agent m. m(name agent \<mapsto> 0)) agents Map.empty"

text \<open>
  The loop over the agents inside a tick. \<open>agent.trade\<close> only prints. Reading
  \<open>round_balances[agent.name]\<close> raises \<open>KeyError\<close> on a missing key.
\<close>

fun trade_agents ::
  "MemeAgent list \<Rightarrow> real \<Rightarrow> rng \<Rightarrow> (string \<rightharpoonup> int) \<Rightarrow> error + (rng \<times> (string \<rightharpoonup> int))" where
  "trade_agents [] mock_price g rb = Inr (g, rb)"
| "trade_agents (agent # agents) mock_price g rb =
    (case execute_strategy (strategy agent) mock_price g of (da, g') \<Rightarrow>
      if fst da = ''buy'' then
        (case rb (name agent) of
           None \<Rightarrow> Inl KeyError
         | Some bal \<Rightarrow> trade_agents agents mock_price g' (rb(name agent \<mapsto> bal + snd da)))
      else if fst da = ''sell'' then
        (case rb (name agent) of
           None \<Rightarrow> Inl KeyError
         | Some bal \<Rightarrow>
             trade_agents agents mock_price g' (rb(name agent \<mapsto> max 0 (bal - snd da))))
      else trade_agents agents mock_price g' rb)"

text \<open>The loop that picks the winner, started with \<open>highest = 0\<close> and no winner.\<close>

fun find_winner ::
  "MemeAgent list \<Rightarrow> (string \<rightharpoonup> int) \<Rightarrow> int \<Rightarrow> MemeAgent option
     \<Rightarrow> error + (int \<times> MemeAgent option)" where
  "find_winner [] rb highest winner_agent = Inr (highest, winner_agent)"
| "find_winner (agent # agents) rb highest winner_agent =
    (case rb (name agent) of
       None \<Rightarrow> Inl KeyError
     | Some bal \<Rightarrow>
        if bal > highest then find_winner agents rb bal (Some agent)
        else find_winner agents rb highest winner_agent)"

definition round_start :: "MemeAgent list \<Rightarrow> loop \<Rightarrow> loop" where
  "round_start agents s =
    (case fund_agents agents (w3 s) of (r, L1) \<Rightarrow>
      (case r of
         Some e \<Rightarrow> s\<lparr>pc := Halted, w3 := L1\<rparr>
       | None \<Rightarrow>
          (case time_time (clk s) of (t, c1) \<Rightarrow>
             s\<lparr>pc := BettingLoop, clk := c1, w3 := set_betting_active True L1,
               betting_end := t + 30\<rparr>)))"

definition betting_iter :: "MemeAgent list \<Rightarrow> loop \<Rightarrow> loop" where
  "betting_iter agents s =
    (case time_time (clk s) of (t, c1) \<Rightarrow>
      if t < betting_end s then
        s\<lparr>clk := c1,
          live_state := update_state ''BETTING'' (betting_end s) (hist s) (live_state s)\<rparr>
      else
        (case time_time c1 of (t0, c2) \<Rightarrow>
           s\<lparr>pc := GameLoop, clk := c2, w3 := set_betting_active False (w3 s),
             round_balances := zero_balances agents, start_time := t0\<rparr>))"

definition game_tick :: "MemeAgent list \<Rightarrow> loop \<Rightarrow> loop" where
  "game_tick agents s =
    (case uniform (1 / 10) 10 (gen s) of (mock_price, g1) \<Rightarrow>
      (case trade_agents agents mock_price g1 (round_balances s) of
         Inl e \<Rightarrow> s\<lparr>pc := Halted, gen := g1\<rparr>
       | Inr (g2, rb) \<Rightarrow>
          (case time_time (clk s) of (t1, c1) \<Rightarrow>
            (let h = history_append (hist s)
                       \<lparr>time = py_int t1, price = mock_price, balances = rb\<rparr>;
                 ls = update_state ''ROUND'' (start_time s + 90) h (live_state s)
             in (case time_time c1 of (t2, c2) \<Rightarrow>
                  if t2 - start_time s > 90 then
                    (case find_winner agents rb 0 None of
                       Inl e \<Rightarrow>
                         s\<lparr>pc := Halted, gen := g2, clk := c2, hist := h,
                           round_balances := rb, live_state := ls\<rparr>
                     | Inr (highest, winner_agent) \<Rightarrow>
                         s\<lparr>pc := RoundStart, gen := g2, clk := c2,
                           w3 := end_round winner_agent (w3 s), hist := h,
                           round_balances := rb, live_state := ls\<rparr>)
                  else
                    s\<lparr>gen := g2, clk := c2, hist := h, round_balances := rb,
                      live_state := ls\<rparr>)))))"

definition step :: "MemeAgent list \<Rightarrow> loop \<Rightarrow> loop" where
  "step agents s =
    (case pc s of
       RoundStart \<Rightarrow> round_start agents s
     | BettingLoop \<Rightarrow> betting_iter agents s
     | GameLoop \<Rightarrow> game_tick agents s
     | Halted \<Rightarrow> s)"

primrec run :: "MemeAgent list \<Rightarrow> nat \<Rightarrow> loop \<Rightarrow> loop" where
  "run agents 0 s = s"
| "run agents (Suc n) s = step agents (run agents n s)"

text \<open>
  \<open>blockchain_startup\<close> of \<open>src/main.py\<close> once the ABI, the connection and the admin key
  are there: funding, registration, then the market loop, all inside one \<open>try\<close> that
  prints the exception and returns.
\<close>

definition blockchain_startup :: "MemeAgent list \<Rightarrow> rng \<Rightarrow> clock \<Rightarrow> ledger \<Rightarrow> loop" where
  "blockchain_startup agents g c L =
    (case fund_agents agents L of (r, L1) \<Rightarrow>
      (case r of
         Some e \<Rightarrow> (market_loop_init g c L1)\<lparr>pc := Halted\<rparr>
       | None \<Rightarrow>
          (case register_agents agents L1 of (r', L2) \<Rightarrow>
            (case r' of
               Some e \<Rightarrow> (market_loop_init g c L2)\<lparr>pc := Halted\<rparr>
             | None \<Rightarrow> market_loop_init g c L2))))"

text \<open>\<open>create_agents\<close>: one agent per strategy; the address comes from the key store.\<close>

definition create_agents :: "(string \<Rightarrow> string) \<Rightarrow> MemeAgent list" where
  "create_agents address_of =
     map (\<lambda>s. \<lparr>name = ''Agent_'' @ s, strategy = s, address = address_of (''Agent_'' @ s)\<rparr>)
       STRATEGIES"

section \<open>The registration protocol as the specification words it\<close>


section \<open>A sample run\<close>

text \<open>
  The five agents of \<open>create_agents\<close>, a generator whose first draws make the Sniper and
  the Whale buy 40 each while the others hold, a clock whose readings end the first
  betting phase after one snapshot and the first game phase after one tick, and a node
  that answers every call. \<open>sample_state_k\<close> is the state after \<open>k\<close> steps.
  \<open>strict_node\<close> is a node on which no agent is registered yet and which rejects the
  registration of the Degen.
\<close>

definition sample_agents :: "MemeAgent list" where
  "sample_agents = create_agents (\<lambda>nm. ''0x'' @ nm)"

definition sample_sniper :: MemeAgent where
  "sample_sniper = \<lparr>name = ''Agent_Sniper'', strategy = ''Sniper'', address = ''0xAgent_Sniper''\<rparr>"

definition sample_draws :: "nat \<Rightarrow> nat" where
  "sample_draws k = (if k < 8
     then [0, 0, 10, 9007199254740991, 9007199254740991, 9007199254740991, 0, 0] ! k
     else 0)"

definition sample_rng :: "nat \<Rightarrow> rng" where
  "sample_rng n = (\<lambda>k. sample_draws (n + k))"

definition sample_times :: "nat \<Rightarrow> real" where
  "sample_times k = (if k < 12
     then [0, 10, 100, 200, 300, 400, 500, 510, 600, 700, 705, 710] ! k
     else 1000)"

definition sample_clock :: "nat \<Rightarrow> clock" where
  "sample_clock n = (\<lambda>k. sample_times (n + k))"

definition sample_reply :: node_reply where
  "sample_reply = \<lparr>transaction_count = Some 7, balance_of = (\<lambda>a. Some 1000000000000000000),
     is_agent = (\<lambda>a. Some True), accepts = (\<lambda>tx nonce. True)\<rparr>"

definition sample_node :: "rpc list \<Rightarrow> ledger" where
  "sample_node cs = \<lparr>replies = (\<lambda>k. sample_reply), calls = cs\<rparr>"

definition sample_init :: loop where
  "sample_init = market_loop_init (sample_rng 0) (sample_clock 0) (sample_node [])"

definition sample_funding :: "rpc list" where
  "sample_funding = [GetTransactionCount, GetBalance ''0xAgent_Sniper'',
     GetBalance ''0xAgent_Hodler'', GetBalance ''0xAgent_Degen'',
     GetBalance ''0xAgent_CopyTrader'', GetBalance ''0xAgent_Whale'']"

definition sample_calls_1 :: "rpc list" where
  "sample_calls_1 = sample_funding @
     [GetTransactionCount, SendRawTransaction (SetBettingActive True) 7]"

definition sample_calls_3 :: "rpc list" where
  "sample_calls_3 = sample_calls_1 @
     [GetTransactionCount, SendRawTransaction (SetBettingActive False) 7]"

definition sample_calls_4 :: "rpc list" where
  "sample_calls_4 = sample_calls_3 @
     [GetTransactionCount, SendRawTransaction (EndRound ''0xAgent_Sniper'') 7]"

definition sample_calls_5 :: "rpc list" where
  "sample_calls_5 = sample_calls_4 @ sample_calls_1"

definition sample_calls_7 :: "rpc list" where
  "sample_calls_7 = sample_calls_5 @
     [GetTransactionCount, SendRawTransaction (SetBettingActive False) 7]"

definition sample_balances :: "string \<rightharpoonup> int" where
  "sample_balances = (zero_balances sample_agents)(''Agent_Sniper'' \<mapsto> 40, ''Agent_Whale'' \<mapsto> 40)"

definition sample_balances_2 :: "string \<rightharpoonup> int" where
  "sample_balances_2 = (zero_balances sample_agents)(''Agent_Sniper'' \<mapsto> 30,
     ''Agent_Hodler'' \<mapsto> 20, ''Agent_Degen'' \<mapsto> 15, ''Agent_CopyTrader'' \<mapsto> 0,
     ''Agent_Whale'' \<mapsto> 40)"

definition sample_entry :: entry where
  "sample_entry = \<lparr>time = 300, price = 1 / 10, balances = sample_balances\<rparr>"

definition sample_entry_2 :: entry where
  "sample_entry_2 = \<lparr>time = 705, price = 1 / 10, balances = sample_balances_2\<rparr>"

definition sample_state_1 :: loop where
  "sample_state_1 =
     \<lparr>pc = BettingLoop, gen = sample_rng 0, clk = sample_clock 1,
      w3 = sample_node sample_calls_1,
      hist = [], round_balances = Map.empty, betting_end = 30, start_time = 0,
      live_state = live_state_init\<rparr>"

definition sample_state_2 :: loop where
  "sample_state_2 =
     \<lparr>pc = BettingLoop, gen = sample_rng 0, clk = sample_clock 2,
      w3 = sample_node sample_calls_1,
      hist = [], round_balances = Map.empty, betting_end = 30, start_time = 0,
      live_state = \<lparr>phase = ''BETTING'', roundEndTime = 30, history = []\<rparr>\<rparr>"

definition sample_state_3 :: loop where
  "sample_state_3 =
     \<lparr>pc = GameLoop, gen = sample_rng 0, clk = sample_clock 4,
      w3 = sample_node sample_calls_3,
      hist = [], round_balances = zero_balances sample_agents, betting_end = 30,
      start_time = 200,
      live_state = \<lparr>phase = ''BETTING'', roundEndTime = 30, history = []\<rparr>\<rparr>"

definition sample_state_4 :: loop where
  "sample_state_4 =
     \<lparr>pc = RoundStart, gen = sample_rng 8, clk = sample_clock 6,
      w3 = sample_node sample_calls_4,
      hist = [sample_entry], round_balances = sample_balances, betting_end = 30,
      start_time = 200,
      live_state = \<lparr>phase = ''ROUND'', roundEndTime = 290, history = [sample_entry]\<rparr>\<rparr>"

definition sample_state_5 :: loop where
  "sample_state_5 =
     \<lparr>pc = BettingLoop, gen = sample_rng 8, clk = sample_clock 7,
      w3 = sample_node sample_calls_5,
      hist = [sample_entry], round_balances = sample_balances, betting_end = 530,
      start_time = 200,
      live_state = \<lparr>phase = ''ROUND'', roundEndTime = 290, history = [sample_entry]\<rparr>\<rparr>"

definition sample_state_6 :: loop where
  "sample_state_6 =
     \<lparr>pc = BettingLoop, gen = sample_rng 8, clk = sample_clock 8,
      w3 = sample_node sample_calls_5,
      hist = [sample_entry], round_balances = sample_balances, betting_end = 530,
      start_time = 200,
      live_state = \<lparr>phase = ''BETTING'', roundEndTime = 530, history = [sample_entry]\<rparr>\<rparr>"

definition sample_state_7 :: loop where
  "sample_state_7 =
     \<lparr>pc = GameLoop, gen = sample_rng 8, clk = sample_clock 10,
      w3 = sample_node sample_calls_7,
      hist = [sample_entry], round_balances = zero_balances sample_agents, betting_end = 530,
      start_time = 700,
      live_state = \<lparr>phase = ''BETTING'', roundEndTime = 530, history = [sample_entry]\<rparr>\<rparr>"

definition sample_state_8 :: loop where
  "sample_state_8 =
     \<lparr>pc = GameLoop, gen = sample_rng 19, clk = sample_clock 12,
      w3 = sample_node sample_calls_7,
      hist = [sample_entry, sample_entry_2], round_balances = sample_balances_2,
      betting_end = 530, start_time = 700,
      live_state = \<lparr>phase = ''ROUND'', roundEndTime = 790,
                     history = [sample_entry, sample_entry_2]\<rparr>\<rparr>"

definition strict_reply :: node_reply where
  "strict_reply = \<lparr>transaction_count = Some 7, balance_of = (\<lambda>a. Some 1000000000000000000),
     is_agent = (\<lambda>a. Some False),
     accepts = (\<lambda>tx nonce. tx \<noteq> RegisterAgent ''0xAgent_Degen'')\<rparr>"

definition strict_node :: "rpc list \<Rightarrow> ledger" where
  "strict_node cs = \<lparr>replies = (\<lambda>k. strict_reply), calls = cs\<rparr>"

section \<open>Properties of the decision\<close>

lemma randint_bounds:
  assumes "a \<le> b"
  shows "a \<le> fst (randint a b g) \<and> fst (randint a b g) \<le> b"
proof -
  have pos: "0 < nat (b - a + 1)" using assms by simp
  have "g 0 mod nat (b - a + 1) < nat (b - a + 1)"
    using pos by (rule mod_less_divisor)
  then have "int (g 0 mod nat (b - a + 1)) < b - a + 1"
    using assms by linarith
  then show ?thesis by (simp add: randint_def)
qed

lemma random_random_range:
  "0 \<le> fst (random_random g) \<and> fst (random_random g) < 1"
proof -
  have "g 0 mod 2 ^ 53 < (2 ^ 53 :: nat)" by simp
  then have "real (g 0 mod 2 ^ 53) < 2 ^ 53"
    by (metis of_nat_less_iff of_nat_numeral of_nat_power)
  then show ?thesis by (simp add: random_random_def)
qed

lemma uniform_range:
  assumes "a \<le> b"
  shows "a \<le> fst (uniform a b g) \<and> fst (uniform a b g) \<le> b"
proof -
  obtain u g' where r: "random_random g = (u, g')" by (cases "random_random g")
  have u: "0 \<le> u \<and> u < 1" using random_random_range [of g] r by simp
  have "0 \<le> (b - a) * u" using assms u by simp
  moreover have "(b - a) * u \<le> (b - a) * 1"
    using assms u by (intro mult_left_mono) auto
  ultimately show ?thesis by (simp add: uniform_def r)
qed

lemma draw_shape:
  assumes "a \<le> b"
    and "(case random_random g of (u, g1) \<Rightarrow>
            if c u then (case randint a b g1 of (n, g2) \<Rightarrow> ((d, n), g2))
            else ((''hold'', 0), g1)) = (r, g')"
  shows "r = (''hold'', 0) \<or> (fst r = d \<and> a \<le> snd r \<and> snd r \<le> b)"
  using randint_bounds [OF assms(1), of "snd (random_random g)"] assms(2)
  by (auto simp: case_prod_beta split: if_splits)

lemma sniper_decision:
  assumes "execute_strategy ''Sniper'' p g = (r, g')"
  shows "r = (''hold'', 0) \<or> (fst r = ''buy'' \<and> 10 \<le> snd r \<and> snd r \<le> 80)"
proof (cases "p < 4")
  case True
  with assms have "r = (''hold'', 0) \<or> (fst r = ''buy'' \<and> 30 \<le> snd r \<and> snd r \<le> 80)"
    by (intro draw_shape [where a = 30 and b = 80 and d = "''buy''" and g = g and g' = g'])
       (simp_all add: execute_strategy_def)
  then show ?thesis by auto
next
  case False
  with assms have "r = (''hold'', 0) \<or> (fst r = ''buy'' \<and> 10 \<le> snd r \<and> snd r \<le> 30)"
    by (intro draw_shape [where a = 10 and b = 30 and d = "''buy''" and g = g and g' = g'])
       (simp_all add: execute_strategy_def)
  then show ?thesis by auto
qed

lemma hodler_decision:
  assumes "execute_strategy ''Hodler'' p g = (r, g')"
  shows "r = (''hold'', 0) \<or> (fst r = ''buy'' \<and> 20 \<le> snd r \<and> snd r \<le> 60)"
  using assms
  by (intro draw_shape [where a = 20 and b = 60 and d = "''buy''" and g = g and g' = g'])
     (simp_all add: execute_strategy_def)

lemma whale_decision:
  assumes "execute_strategy ''Whale'' p g = (r, g')"
  shows "r = (''hold'', 0) \<or> (fst r = ''buy'' \<and> 40 \<le> snd r \<and> snd r \<le> 80)"
  using assms
  by (intro draw_shape [where a = 40 and b = 80 and d = "''buy''" and g = g and g' = g'])
     (simp_all add: execute_strategy_def)

lemma degen_decision:
  assumes "execute_strategy ''Degen'' p g = (r, g')"
  shows "r = (''hold'', 0) \<or> (fst r = ''buy'' \<and> 15 \<le> snd r \<and> snd r \<le> 70)
           \<or> (fst r = ''sell'' \<and> 10 \<le> snd r \<and> snd r \<le> 40)"
proof -
  have e: "execute_strategy ''Degen'' p g =
     (case random_random g of (roll, g1) \<Rightarrow>
          if roll < 4 / 10 then (case randint 15 70 g1 of (n, g2) \<Rightarrow> ((''buy'', n), g2))
          else if roll < 7 / 10 then (case randint 10 40 g1 of (n, g2) \<Rightarrow> ((''sell'', n), g2))
          else ((''hold'', 0), g1))"
    by (simp add: execute_strategy_def)
  show ?thesis
    using assms randint_bounds [of 15 70 "snd (random_random g)"]
      randint_bounds [of 10 40 "snd (random_random g)"]
    unfolding e by (auto simp: case_prod_beta split: if_splits)
qed

lemma copytrader_decision:
  assumes "execute_strategy ''CopyTrader'' p g = (r, g')"
  shows "r = (''hold'', 0) \<or> (fst r = ''buy'' \<and> 10 \<le> snd r \<and> snd r \<le> 60)
           \<or> (fst r = ''sell'' \<and> 10 \<le> snd r \<and> snd r \<le> 30)"
proof -
  consider "p > 6" | "\<not> p > 6" "p < 3" | "\<not> p > 6" "\<not> p < 3" by blast
  then show ?thesis
  proof cases
    case 1
    with assms have "r = (''hold'', 0) \<or> (fst r = ''buy'' \<and> 20 \<le> snd r \<and> snd r \<le> 60)"
      by (intro draw_shape [where a = 20 and b = 60 and d = "''buy''" and g = g and g' = g'])
         (simp_all add: execute_strategy_def)
    then show ?thesis by auto
  next
    case 2
    with assms have "r = (''hold'', 0) \<or> (fst r = ''sell'' \<and> 10 \<le> snd r \<and> snd r \<le> 30)"
      by (intro draw_shape [where a = 10 and b = 30 and d = "''sell''" and g = g and g' = g'])
         (simp_all add: execute_strategy_def)
    then show ?thesis by auto
  next
    case 3
    with assms have "r = (''hold'', 0) \<or> (fst r = ''buy'' \<and> 10 \<le> snd r \<and> snd r \<le> 40)"
      by (intro draw_shape [where a = 10 and b = 40 and d = "''buy''" and g = g and g' = g'])
         (simp_all add: execute_strategy_def)
    then show ?thesis by auto
  qed
qed

lemma other_decision:
  assumes "strat \<notin> set STRATEGIES"
  shows "fst (execute_strategy strat p g) = (''hold'', 0)"
  using assms by (simp add: execute_strategy_def STRATEGIES_def)

lemma execute_strategy_shape:
  "fst (execute_strategy strat p g) = (''hold'', 0)
   \<or> (fst (fst (execute_strategy strat p g)) = ''buy'' \<and> strat \<in> set STRATEGIES \<and>
        fst (quantity_range strat) \<le> snd (fst (execute_strategy strat p g)) \<and>
        snd (fst (execute_strategy strat p g)) \<le> snd (quantity_range strat))
   \<or> (fst (fst (execute_strategy strat p g)) = ''sell'' \<and>
        (strat = ''Degen'' \<or> strat = ''CopyTrader'') \<and>
        fst (quantity_range strat) \<le> snd (fst (execute_strategy strat p g)) \<and>
        snd (fst (execute_strategy strat p g)) \<le> snd (quantity_range strat))"
proof -
  obtain r g' where e: "execute_strategy strat p g = (r, g')"
    by (cases "execute_strategy strat p g")
  consider "strat = ''Sniper''" | "strat = ''Hodler''" | "strat = ''Degen''"
    | "strat = ''CopyTrader''" | "strat = ''Whale''" | "strat \<notin> set STRATEGIES"
    by (auto simp: STRATEGIES_def)
  then show ?thesis
  proof cases
    case 1
    then show ?thesis using sniper_decision [of p g r g'] e
      by (auto simp: quantity_range_def STRATEGIES_def)
  next
    case 2
    then show ?thesis using hodler_decision [of p g r g'] e
      by (auto simp: quantity_range_def STRATEGIES_def)
  next
    case 3
    then show ?thesis using degen_decision [of p g r g'] e
      by (auto simp: quantity_range_def STRATEGIES_def)
  next
    case 4
    then show ?thesis using copytrader_decision [of p g r g'] e
      by (auto simp: quantity_range_def STRATEGIES_def)
  next
    case 5
    then show ?thesis using whale_decision [of p g r g'] e
      by (auto simp: quantity_range_def STRATEGIES_def)
  next
    case 6
    then show ?thesis using other_decision [of strat p g] by simp
  qed
qed

lemma quantity_range_within:
  "0 \<le> fst (quantity_range strat) \<and> snd (quantity_range strat) \<le> 80"
  by (simp add: quantity_range_def)

lemma execute_strategy_amount_nonneg: "0 \<le> snd (fst (execute_strategy strat p g))"
  using execute_strategy_shape [of strat p g] quantity_range_within [of strat]
  by auto

section \<open>Properties of the loops over the agents\<close>

lemma trade_agents_dom:
  assumes "name ` set agents \<subseteq> dom rb"
  shows "\<exists>g' rb'. trade_agents agents p g rb = Inr (g', rb') \<and> dom rb' = dom rb"
  using assms
proof (induction agents arbitrary: g rb)
  case Nil
  then show ?case by simp
next
  case (Cons a agents)
  obtain da g1 where e: "execute_strategy (strategy a) p g = (da, g1)"
    by (cases "execute_strategy (strategy a) p g")
  from Cons.prems obtain bal where bal: "rb (name a) = Some bal" by auto
  have d: "dom (rb(name a \<mapsto> v)) = dom rb" for v using bal by auto
  have sub: "name ` set agents \<subseteq> dom (rb(name a \<mapsto> v))" for v
    using Cons.prems by auto
  have sub0: "name ` set agents \<subseteq> dom rb" using Cons.prems by auto
  have upd: "\<exists>g' rb'. trade_agents agents p g1 (rb(name a \<mapsto> v)) = Inr (g', rb') \<and>
                 dom rb' = dom rb" for v
  proof -
    from Cons.IH [OF sub [of v], of g1] obtain g' rb'
      where "trade_agents agents p g1 (rb(name a \<mapsto> v)) = Inr (g', rb')"
        and "dom rb' = dom (rb(name a \<mapsto> v))" by blast
    then show ?thesis unfolding d by blast
  qed
  show ?case
  proof (cases "fst da = ''buy''")
    case True
    then show ?thesis using upd [of "bal + snd da"] by (simp add: e bal)
  next
    case nb: False
    show ?thesis
    proof (cases "fst da = ''sell''")
      case True
      then show ?thesis using nb upd [of "max 0 (bal - snd da)"] by (simp add: e bal)
    next
      case False
      then show ?thesis using nb Cons.IH [OF sub0, of g1] by (simp add: e)
    qed
  qed
qed

lemma trade_agents_nonneg:
  assumes "\<forall>nm b. rb nm = Some b \<longrightarrow> 0 \<le> b"
    and "trade_agents agents p g rb = Inr (g', rb')"
  shows "\<forall>nm b. rb' nm = Some b \<longrightarrow> 0 \<le> b"
  using assms
proof (induction agents arbitrary: g rb)
  case Nil
  then show ?case by simp
next
  case (Cons a agents)
  obtain da g1 where e: "execute_strategy (strategy a) p g = (da, g1)"
    by (cases "execute_strategy (strategy a) p g")
  have amt: "0 \<le> snd da" using execute_strategy_amount_nonneg [of "strategy a" p g] e by simp
  show ?case
  proof (cases "fst da = ''buy''")
    case True
    with Cons.prems(2) e obtain bal where bal: "rb (name a) = Some bal"
      and rec: "trade_agents agents p g1 (rb(name a \<mapsto> bal + snd da)) = Inr (g', rb')"
      by (auto split: option.splits)
    have "0 \<le> bal" using Cons.prems(1) bal by blast
    then have "\<forall>nm b. (rb(name a \<mapsto> bal + snd da)) nm = Some b \<longrightarrow> 0 \<le> b"
      using Cons.prems(1) amt by auto
    from Cons.IH [OF this rec] show ?thesis .
  next
    case nb: False
    show ?thesis
    proof (cases "fst da = ''sell''")
      case True
      with nb Cons.prems(2) e obtain bal where bal: "rb (name a) = Some bal"
        and rec: "trade_agents agents p g1 (rb(name a \<mapsto> max 0 (bal - snd da))) = Inr (g', rb')"
        by (auto split: option.splits)
      have "\<forall>nm b. (rb(name a \<mapsto> max 0 (bal - snd da))) nm = Some b \<longrightarrow> 0 \<le> b"
        using Cons.prems(1) by auto
      from Cons.IH [OF this rec] show ?thesis .
    next
      case False
      with nb Cons.prems(2) e have "trade_agents agents p g1 rb = Inr (g', rb')" by simp
      from Cons.IH [OF Cons.prems(1) this] show ?thesis .
    qed
  qed
qed

lemma trade_agents_no_sell:
  assumes "\<forall>x\<in>set agents. name x = nm \<longrightarrow>
             strategy x = ''Sniper'' \<or> strategy x = ''Hodler'' \<or> strategy x = ''Whale''"
    and "trade_agents agents p g rb = Inr (g', rb')"
    and "rb nm = Some b"
  shows "\<exists>b'. rb' nm = Some b' \<and> b \<le> b'"
  using assms
proof (induction agents arbitrary: g rb b)
  case Nil
  then show ?case by simp
next
  case (Cons a agents)
  obtain da g1 where e: "execute_strategy (strategy a) p g = (da, g1)"
    by (cases "execute_strategy (strategy a) p g")
  have amt: "0 \<le> snd da" using execute_strategy_amount_nonneg [of "strategy a" p g] e by simp
  have rest: "\<forall>x\<in>set agents. name x = nm \<longrightarrow>
             strategy x = ''Sniper'' \<or> strategy x = ''Hodler'' \<or> strategy x = ''Whale''"
    using Cons.prems(1) by simp
  have nosell: "name a = nm \<Longrightarrow> fst da \<noteq> ''sell''"
    using execute_strategy_shape [of "strategy a" p g] e Cons.prems(1) by auto
  show ?case
  proof (cases "fst da = ''buy''")
    case True
    with Cons.prems(2) e obtain bal where bal: "rb (name a) = Some bal"
      and rec: "trade_agents agents p g1 (rb(name a \<mapsto> bal + snd da)) = Inr (g', rb')"
      by (auto split: option.splits)
    show ?thesis
    proof (cases "name a = nm")
      case True
      then have "(rb(name a \<mapsto> bal + snd da)) nm = Some (b + snd da)"
        using bal Cons.prems(3) by simp
      from Cons.IH [OF rest rec this] amt show ?thesis by force
    next
      case False
      then have "(rb(name a \<mapsto> bal + snd da)) nm = Some b"
        using Cons.prems(3) by simp
      from Cons.IH [OF rest rec this] show ?thesis .
    qed
  next
    case nb: False
    show ?thesis
    proof (cases "fst da = ''sell''")
      case True
      with nb Cons.prems(2) e obtain bal where bal: "rb (name a) = Some bal"
        and rec: "trade_agents agents p g1 (rb(name a \<mapsto> max 0 (bal - snd da))) = Inr (g', rb')"
        by (auto split: option.splits)
      from True nosell have "name a \<noteq> nm" by blast
      then have "(rb(name a \<mapsto> max 0 (bal - snd da))) nm = Some b"
        using Cons.prems(3) by simp
      from Cons.IH [OF rest rec this] show ?thesis .
    next
      case False
      with nb Cons.prems(2) e have "trade_agents agents p g1 rb = Inr (g', rb')" by simp
      from Cons.IH [OF rest this Cons.prems(3)] show ?thesis .
    qed
  qed
qed

lemma find_winner_total:
  assumes "name ` set agents \<subseteq> dom rb"
  shows "\<exists>h w. find_winner agents rb h0 w0 = Inr (h, w)"
  using assms
proof (induction agents arbitrary: h0 w0)
  case Nil
  then show ?case by simp
next
  case (Cons a agents)
  from Cons.prems obtain bal where bal: "rb (name a) = Some bal" by auto
  have sub: "name ` set agents \<subseteq> dom rb" using Cons.prems by auto
  show ?case using Cons.IH [OF sub] by (simp add: bal)
qed

lemma find_winner_first_max:
  assumes "find_winner agents rb h0 w0 = Inr (h, w)"
  shows "((\<forall>x\<in>set agents. \<forall>b. rb (name x) = Some b \<longrightarrow> b \<le> h0) \<and> h = h0 \<and> w = w0)
       \<or> (\<exists>pre a post. agents = pre @ a # post \<and> w = Some a \<and> rb (name a) = Some h \<and> h0 < h \<and>
             (\<forall>x\<in>set pre. \<forall>b. rb (name x) = Some b \<longrightarrow> b < h) \<and>
             (\<forall>x\<in>set post. \<forall>b. rb (name x) = Some b \<longrightarrow> b \<le> h))"
  using assms
proof (induction agents arbitrary: h0 w0)
  case Nil
  then show ?case by simp
next
  case (Cons a agents)
  from Cons.prems obtain bal where bal: "rb (name a) = Some bal"
    by (auto split: option.splits)
  show ?case
  proof (cases "bal > h0")
    case True
    with Cons.prems bal have rec: "find_winner agents rb bal (Some a) = Inr (h, w)" by simp
    from Cons.IH [OF rec] show ?thesis
    proof
      assume "(\<forall>x\<in>set agents. \<forall>b. rb (name x) = Some b \<longrightarrow> b \<le> bal) \<and> h = bal \<and> w = Some a"
      then have "a # agents = [] @ a # agents \<and> w = Some a \<and> rb (name a) = Some h \<and> h0 < h \<and>
             (\<forall>x\<in>set []. \<forall>b. rb (name x) = Some b \<longrightarrow> b < h) \<and>
             (\<forall>x\<in>set agents. \<forall>b. rb (name x) = Some b \<longrightarrow> b \<le> h)"
        using bal True by simp
      then show ?thesis by blast
    next
      assume "\<exists>pre a' post. agents = pre @ a' # post \<and> w = Some a' \<and> rb (name a') = Some h \<and>
             bal < h \<and> (\<forall>x\<in>set pre. \<forall>b. rb (name x) = Some b \<longrightarrow> b < h) \<and>
             (\<forall>x\<in>set post. \<forall>b. rb (name x) = Some b \<longrightarrow> b \<le> h)"
      then obtain pre a' post where p: "agents = pre @ a' # post" "w = Some a'"
        "rb (name a') = Some h" "bal < h"
        "\<forall>x\<in>set pre. \<forall>b. rb (name x) = Some b \<longrightarrow> b < h"
        "\<forall>x\<in>set post. \<forall>b. rb (name x) = Some b \<longrightarrow> b \<le> h" by blast
      have "a # agents = (a # pre) @ a' # post \<and> w = Some a' \<and> rb (name a') = Some h \<and> h0 < h \<and>
             (\<forall>x\<in>set (a # pre). \<forall>b. rb (name x) = Some b \<longrightarrow> b < h) \<and>
             (\<forall>x\<in>set post. \<forall>b. rb (name x) = Some b \<longrightarrow> b \<le> h)"
        using p bal True by auto
      then show ?thesis by blast
    qed
  next
    case False
    with Cons.prems bal have rec: "find_winner agents rb h0 w0 = Inr (h, w)" by simp
    from Cons.IH [OF rec] show ?thesis
    proof
      assume "(\<forall>x\<in>set agents. \<forall>b. rb (name x) = Some b \<longrightarrow> b \<le> h0) \<and> h = h0 \<and> w = w0"
      then show ?thesis using bal False by auto
    next
      assume "\<exists>pre a' post. agents = pre @ a' # post \<and> w = Some a' \<and> rb (name a') = Some h \<and>
             h0 < h \<and> (\<forall>x\<in>set pre. \<forall>b. rb (name x) = Some b \<longrightarrow> b < h) \<and>
             (\<forall>x\<in>set post. \<forall>b. rb (name x) = Some b \<longrightarrow> b \<le> h)"
      then obtain pre a' post where p: "agents = pre @ a' # post" "w = Some a'"
        "rb (name a') = Some h" "h0 < h"
        "\<forall>x\<in>set pre. \<forall>b. rb (name x) = Some b \<longrightarrow> b < h"
        "\<forall>x\<in>set post. \<forall>b. rb (name x) = Some b \<longrightarrow> b \<le> h" by blast
      have "a # agents = (a # pre) @ a' # post \<and> w = Some a' \<and> rb (name a') = Some h \<and> h0 < h \<and>
             (\<forall>x\<in>set (a # pre). \<forall>b. rb (name x) = Some b \<longrightarrow> b < h) \<and>
             (\<forall>x\<in>set post. \<forall>b. rb (name x) = Some b \<longrightarrow> b \<le> h)"
        using p bal False by auto
      then show ?thesis by blast
    qed
  qed
qed

lemma history_append_length:
  "length h \<le> 50 \<Longrightarrow> length (history_append h e) = min 50 (length h + 1)"
  by (auto simp: history_append_def Let_def)




section \<open>Properties of one step of the market loop\<close>

lemma zero_balances_fold:
  "fold (\<lambda>agent m. m(name agent \<mapsto> 0)) agents m0 nm =
     (if nm \<in> name ` set agents then Some (0::int) else m0 nm)"
  by (induction agents arbitrary: m0) auto

lemma zero_balances_lookup:
  "zero_balances agents nm = (if nm \<in> name ` set agents then Some 0 else None)"
  by (simp add: zero_balances_def zero_balances_fold)

lemma game_tick_raised:
  assumes "trade_agents agents (fst (uniform (1 / 10) 10 (gen s)))
             (snd (uniform (1 / 10) 10 (gen s))) (round_balances s) = Inl e"
  shows "game_tick agents s = s\<lparr>pc := Halted, gen := snd (uniform (1 / 10) 10 (gen s))\<rparr>"
  using assms by (simp add: game_tick_def case_prod_beta)

lemma game_tick_fields:
  assumes "trade_agents agents (fst (uniform (1 / 10) 10 (gen s)))
             (snd (uniform (1 / 10) 10 (gen s))) (round_balances s) = Inr (g2, rb)"
  shows "hist (game_tick agents s) =
           history_append (hist s)
             \<lparr>time = py_int (clk s 0), price = fst (uniform (1 / 10) 10 (gen s)), balances = rb\<rparr>"
    and "round_balances (game_tick agents s) = rb"
    and "start_time (game_tick agents s) = start_time s"
    and "live_state (game_tick agents s) =
           update_state ''ROUND'' (start_time s + 90) (hist (game_tick agents s)) (live_state s)"
  using assms
  by (simp_all add: game_tick_def case_prod_beta time_time_def Let_def split: sum.splits)

lemma game_tick_pc:
  assumes "trade_agents agents (fst (uniform (1 / 10) 10 (gen s)))
             (snd (uniform (1 / 10) 10 (gen s))) (round_balances s) = Inr (g2, rb)"
    and "find_winner agents rb 0 None = Inr (h, w)"
    and "pc s = GameLoop"
  shows "pc (game_tick agents s) = (if clk s 1 - start_time s > 90 then RoundStart else GameLoop)"
    and "w3 (game_tick agents s) =
           (if clk s 1 - start_time s > 90 then end_round w (w3 s) else w3 s)"
  using assms
  by (simp_all add: game_tick_def case_prod_beta time_time_def Let_def)

lemma round_start_frame:
  "hist (round_start agents s) = hist s"
  "round_balances (round_start agents s) = round_balances s"
  "live_state (round_start agents s) = live_state s"
  "start_time (round_start agents s) = start_time s"
  "pc (round_start agents s) = BettingLoop \<or> pc (round_start agents s) = Halted"
  by (simp_all add: round_start_def case_prod_beta split: option.splits)

lemma betting_iter_frame:
  "hist (betting_iter agents s) = hist s"
  "pc s = BettingLoop \<Longrightarrow>
     pc (betting_iter agents s) = (if clk s 0 < betting_end s then BettingLoop else GameLoop)"
  "round_balances (betting_iter agents s) =
     (if clk s 0 < betting_end s then round_balances s else zero_balances agents)"
  "live_state (betting_iter agents s) =
     (if clk s 0 < betting_end s
      then update_state ''BETTING'' (betting_end s) (hist s) (live_state s) else live_state s)"
  by (simp_all add: betting_iter_def case_prod_beta time_time_def)

lemma step_hist:
  "hist (step agents s) = hist s \<or> (\<exists>e. hist (step agents s) = history_append (hist s) e)"
proof (cases "pc s")
  case RoundStart
  then show ?thesis by (simp add: step_def round_start_frame)
next
  case BettingLoop
  then show ?thesis by (simp add: step_def betting_iter_frame)
next
  case GameLoop
  show ?thesis
  proof (cases "trade_agents agents (fst (uniform (1 / 10) 10 (gen s)))
             (snd (uniform (1 / 10) 10 (gen s))) (round_balances s)")
    case (Inl e)
    then show ?thesis using GameLoop by (simp add: step_def game_tick_raised)
  next
    case (Inr r)
    then show ?thesis using GameLoop game_tick_fields(1) [of agents s "fst r" "snd r"]
      by (auto simp: step_def)
  qed
next
  case Halted
  then show ?thesis by (simp add: step_def)
qed

lemma step_hist_bound:
  assumes "length (hist s) \<le> 50"
  shows "length (hist (step agents s)) \<le> 50"
  using step_hist [of agents s] assms history_append_length [of "hist s"]
  by auto

lemma step_live_bound:
  assumes "length (hist s) \<le> 50" and "length (history (live_state s)) \<le> 50"
  shows "length (history (live_state (step agents s))) \<le> 50"
proof (cases "pc s")
  case RoundStart
  then show ?thesis using assms by (simp add: step_def round_start_frame)
next
  case BettingLoop
  then show ?thesis using assms by (simp add: step_def betting_iter_frame update_state_def)
next
  case GameLoop
  show ?thesis
  proof (cases "trade_agents agents (fst (uniform (1 / 10) 10 (gen s)))
             (snd (uniform (1 / 10) 10 (gen s))) (round_balances s)")
    case (Inl e)
    then show ?thesis using GameLoop assms by (simp add: step_def game_tick_raised)
  next
    case (Inr r)
    then have "live_state (game_tick agents s) =
           update_state ''ROUND'' (start_time s + 90) (hist (game_tick agents s)) (live_state s)"
      using game_tick_fields(4) [of agents s "fst r" "snd r"] by simp
    then show ?thesis
      using GameLoop step_hist_bound [OF assms(1), of agents]
      by (simp add: step_def update_state_def)
  qed
next
  case Halted
  then show ?thesis using assms by (simp add: step_def)
qed

lemma step_balances_nonneg:
  assumes "\<forall>nm b. round_balances s nm = Some b \<longrightarrow> 0 \<le> b"
  shows "\<forall>nm b. round_balances (step agents s) nm = Some b \<longrightarrow> 0 \<le> b"
proof (cases "pc s")
  case RoundStart
  then show ?thesis using assms by (simp add: step_def round_start_frame)
next
  case BettingLoop
  then show ?thesis using assms
    by (simp add: step_def betting_iter_frame zero_balances_lookup)
next
  case GameLoop
  show ?thesis
  proof (cases "trade_agents agents (fst (uniform (1 / 10) 10 (gen s)))
             (snd (uniform (1 / 10) 10 (gen s))) (round_balances s)")
    case (Inl e)
    then show ?thesis using GameLoop assms by (simp add: step_def game_tick_raised)
  next
    case (Inr r)
    then have t: "trade_agents agents (fst (uniform (1 / 10) 10 (gen s)))
             (snd (uniform (1 / 10) 10 (gen s))) (round_balances s) = Inr (fst r, snd r)"
      by simp
    from trade_agents_nonneg [OF assms t] game_tick_fields(2) [OF t] GameLoop
    show ?thesis by (simp add: step_def)
  qed
next
  case Halted
  then show ?thesis using assms by (simp add: step_def)
qed

lemma step_dom:
  assumes "pc s = GameLoop \<longrightarrow> name ` set agents \<subseteq> dom (round_balances s)"
  shows "pc (step agents s) = GameLoop \<longrightarrow>
           name ` set agents \<subseteq> dom (round_balances (step agents s))"
proof (cases "pc s")
  case RoundStart
  then show ?thesis using round_start_frame(5) [of agents s] by (auto simp: step_def)
next
  case BettingLoop
  then show ?thesis
    by (auto simp: step_def betting_iter_frame zero_balances_lookup dom_def)
next
  case GameLoop
  with assms have sub: "name ` set agents \<subseteq> dom (round_balances s)" by simp
  from trade_agents_dom [OF sub] obtain g2 rb
    where t: "trade_agents agents (fst (uniform (1 / 10) 10 (gen s)))
             (snd (uniform (1 / 10) 10 (gen s))) (round_balances s) = Inr (g2, rb)"
      and d: "dom rb = dom (round_balances s)" by blast
  show ?thesis using GameLoop game_tick_fields(2) [OF t] d sub by (simp add: step_def)
next
  case Halted
  then show ?thesis by (simp add: step_def)
qed

lemma reachable_invariant:
  "length (hist (run agents n (market_loop_init g c L))) \<le> 50 \<and>
   length (history (live_state (run agents n (market_loop_init g c L)))) \<le> 50 \<and>
   (\<forall>nm b. round_balances (run agents n (market_loop_init g c L)) nm = Some b \<longrightarrow> 0 \<le> b) \<and>
   (pc (run agents n (market_loop_init g c L)) = GameLoop \<longrightarrow>
      name ` set agents \<subseteq> dom (round_balances (run agents n (market_loop_init g c L))))"
proof (induction n)
  case 0
  show ?case by (simp add: market_loop_init_def live_state_init_def)
next
  case (Suc n)
  then show ?case
    using step_hist_bound [of "run agents n (market_loop_init g c L)" agents]
      step_live_bound [of "run agents n (market_loop_init g c L)" agents]
      step_balances_nonneg [of "run agents n (market_loop_init g c L)" agents]
      step_dom [of "run agents n (market_loop_init g c L)" agents]
    by simp
qed

lemma run_hist:
  "\<exists>es. hist (run agents n s) = foldl history_append (hist s) es \<and> length es \<le> n"
proof (induction n)
  case 0
  have "hist (run agents 0 s) = foldl history_append (hist s) [] \<and> length ([]::entry list) \<le> 0"
    by simp
  then show ?case by blast
next
  case (Suc n)
  then obtain es where es: "hist (run agents n s) = foldl history_append (hist s) es"
    and l: "length es \<le> n" by blast
  from step_hist [of agents "run agents n s"] show ?case
  proof
    assume "hist (step agents (run agents n s)) = hist (run agents n s)"
    then have "hist (run agents (Suc n) s) = foldl history_append (hist s) es \<and>
               length es \<le> Suc n" using es l by simp
    then show ?thesis by blast
  next
    assume "\<exists>e. hist (step agents (run agents n s)) = history_append (hist (run agents n s)) e"
    then obtain e where "hist (step agents (run agents n s)) =
        history_append (hist (run agents n s)) e" by blast
    then have "hist (run agents (Suc n) s) = foldl history_append (hist s) (es @ [e]) \<and>
               length (es @ [e]) \<le> Suc n" using es l by simp
    then show ?thesis by blast
  qed
qed

lemma ticks_invariant:
  assumes "name ` set agents \<subseteq> dom (round_balances s0)" and "length (hist s0) \<le> 50"
    and "\<forall>j<k. pc (run agents j s0) = GameLoop"
  shows "start_time (run agents k s0) = start_time s0 \<and>
         name ` set agents \<subseteq> dom (round_balances (run agents k s0)) \<and>
         length (hist (run agents k s0)) = min 50 (length (hist s0) + k) \<and>
         (0 < k \<longrightarrow> live_state (run agents k s0) =
            \<lparr>phase = ''ROUND'', roundEndTime = start_time s0 + 90,
             history = hist (run agents k s0)\<rparr>)"
  using assms(3)
proof (induction k)
  case 0
  then show ?case using assms(1,2) by simp
next
  case (Suc k)
  let ?s = "run agents k s0"
  from Suc have ih: "start_time ?s = start_time s0"
    "name ` set agents \<subseteq> dom (round_balances ?s)"
    "length (hist ?s) = min 50 (length (hist s0) + k)" by simp_all
  from Suc.prems have pc: "pc ?s = GameLoop" by simp
  from trade_agents_dom [OF ih(2)] obtain g2 rb
    where t: "trade_agents agents (fst (uniform (1 / 10) 10 (gen ?s)))
             (snd (uniform (1 / 10) 10 (gen ?s))) (round_balances ?s) = Inr (g2, rb)"
      and d: "dom rb = dom (round_balances ?s)" by blast
  have st: "step agents ?s = game_tick agents ?s" using pc by (simp add: step_def)
  have l: "length (hist ?s) \<le> 50" using ih(3) by simp
  have a: "start_time (run agents (Suc k) s0) = start_time s0"
    using game_tick_fields(3) [OF t] ih(1) by (simp add: st)
  have b: "name ` set agents \<subseteq> dom (round_balances (run agents (Suc k) s0))"
    using game_tick_fields(2) [OF t] d ih(2) by (simp add: st)
  have c: "length (hist (run agents (Suc k) s0)) = min 50 (length (hist s0) + Suc k)"
    using game_tick_fields(1) [OF t] history_append_length [OF l] ih(3) by (simp add: st)
  have e: "live_state (run agents (Suc k) s0) =
            \<lparr>phase = ''ROUND'', roundEndTime = start_time s0 + 90,
             history = hist (run agents (Suc k) s0)\<rparr>"
    using game_tick_fields(4) [OF t] ih(1) by (simp add: st update_state_def)
  show ?case using a b c e by blast
qed

lemma end_round_calls:
  "calls (end_round (Some a) L) =
     calls L @ GetTransactionCount #
       (case transaction_count (replies L 0) of
          None \<Rightarrow> []
        | Some nonce \<Rightarrow> [SendRawTransaction (EndRound (address a)) nonce])"
  by (simp add: end_round_def get_transaction_count_def send_transaction_def ask_def
      split: option.splits)

lemma round_start_proceeds:
  assumes "transaction_count (replies (w3 s) 0) = Some n"
  shows "pc (round_start agents s) = BettingLoop"
  using assms
  by (simp add: round_start_def fund_agents_def get_transaction_count_def case_prod_beta)

lemma tick_no_sell:
  assumes "strategy a = ''Sniper'' \<or> strategy a = ''Hodler'' \<or> strategy a = ''Whale''"
    and "a \<in> set agents" and "distinct (map name agents)"
    and "pc s = GameLoop" and "round_balances s (name a) = Some b"
  shows "fst (fst (execute_strategy (strategy a) p g)) \<noteq> ''sell'' \<and>
         (\<exists>b'. round_balances (step agents s) (name a) = Some b' \<and> b \<le> b')"
proof -
  have ns: "fst (fst (execute_strategy (strategy a) p g)) \<noteq> ''sell''"
    using execute_strategy_shape [of "strategy a" p g] assms(1) by auto
  have uniq: "\<forall>x\<in>set agents. name x = name a \<longrightarrow>
             strategy x = ''Sniper'' \<or> strategy x = ''Hodler'' \<or> strategy x = ''Whale''"
  proof (intro ballI impI)
    fix x assume "x \<in> set agents" "name x = name a"
    with assms(2,3) have "x = a" by (meson distinct_map inj_onD)
    with assms(1) show "strategy x = ''Sniper'' \<or> strategy x = ''Hodler'' \<or> strategy x = ''Whale''"
      by simp
  qed
  have "\<exists>b'. round_balances (step agents s) (name a) = Some b' \<and> b \<le> b'"
  proof (cases "trade_agents agents (fst (uniform (1 / 10) 10 (gen s)))
             (snd (uniform (1 / 10) 10 (gen s))) (round_balances s)")
    case (Inl e)
    then show ?thesis using assms(4,5) by (simp add: step_def game_tick_raised)
  next
    case (Inr r)
    then have t: "trade_agents agents (fst (uniform (1 / 10) 10 (gen s)))
             (snd (uniform (1 / 10) 10 (gen s))) (round_balances s) = Inr (fst r, snd r)"
      by simp
    from trade_agents_no_sell [OF uniq t assms(5)] game_tick_fields(2) [OF t] assms(4)
    show ?thesis by (simp add: step_def)
  qed
  with ns show ?thesis by blast
qed

lemma create_agents_distinct: "distinct (map name (create_agents address_of))"
  by (simp add: create_agents_def STRATEGIES_def)

section \<open>Properties of registration\<close>




section \<open>Evaluation of the sample run\<close>

lemma sample_rng_next: "next_rng (sample_rng n) = sample_rng (n + 1)"
  by (simp add: next_rng_def sample_rng_def)

lemma sample_clock_next:
  "time_time (sample_clock n) = (sample_times n, sample_clock (n + 1))"
  by (simp add: time_time_def sample_clock_def)

lemma sample_times_values:
  "sample_times 0 = 0" "sample_times 1 = 10" "sample_times 2 = 100" "sample_times 3 = 200"
  "sample_times 4 = 300" "sample_times 5 = 400" "sample_times 6 = 500" "sample_times 7 = 510"
  "sample_times 8 = 600" "sample_times 9 = 700" "sample_times 10 = 705" "sample_times 11 = 710"
  by (simp_all add: sample_times_def)

lemma sample_node_ask: "ask c (sample_node cs) = sample_node (cs @ [c])"
  by (simp add: ask_def sample_node_def)

lemma sample_node_reply: "replies (sample_node cs) k = sample_reply"
  by (simp add: sample_node_def)

lemma sample_agents_list:
  "sample_agents =
    [sample_sniper,
     \<lparr>name = ''Agent_Hodler'', strategy = ''Hodler'', address = ''0xAgent_Hodler''\<rparr>,
     \<lparr>name = ''Agent_Degen'', strategy = ''Degen'', address = ''0xAgent_Degen''\<rparr>,
     \<lparr>name = ''Agent_CopyTrader'', strategy = ''CopyTrader'', address = ''0xAgent_CopyTrader''\<rparr>,
     \<lparr>name = ''Agent_Whale'', strategy = ''Whale'', address = ''0xAgent_Whale''\<rparr>]"
  by (simp add: sample_agents_def create_agents_def STRATEGIES_def sample_sniper_def)

lemma sample_fund:
  "fund_agents sample_agents (sample_node cs) = (None, sample_node (cs @ sample_funding))"
  by (simp add: fund_agents_def fund_one_def get_transaction_count_def get_balance_def
      sample_node_ask sample_node_reply sample_reply_def sample_agents_list sample_sniper_def
      sample_funding_def)

lemma sample_betting:
  "set_betting_active flag (sample_node cs) =
     sample_node (cs @ [GetTransactionCount, SendRawTransaction (SetBettingActive flag) 7])"
  by (simp add: set_betting_active_def get_transaction_count_def send_transaction_def
      sample_node_ask sample_node_reply sample_reply_def)

lemma sample_end_round:
  "end_round (Some sample_sniper) (sample_node cs) =
     sample_node (cs @ [GetTransactionCount, SendRawTransaction (EndRound ''0xAgent_Sniper'') 7])"
  by (simp add: end_round_def get_transaction_count_def send_transaction_def
      sample_node_ask sample_node_reply sample_reply_def sample_sniper_def)

lemma sample_random:
  "random_random (sample_rng n) = (real (sample_draws n mod 2 ^ 53) / 2 ^ 53, sample_rng (n + 1))"
  by (simp add: random_random_def sample_rng_next) (simp add: sample_rng_def)

lemma sample_randint:
  "randint a b (sample_rng n) =
     (a + int (sample_draws n mod nat (b - a + 1)), sample_rng (n + 1))"
  by (simp add: randint_def sample_rng_next) (simp add: sample_rng_def)

lemma sample_draws_values:
  "sample_draws 0 = 0" "sample_draws 1 = 0" "sample_draws 2 = 10"
  "sample_draws 3 = 9007199254740991" "sample_draws 4 = 9007199254740991"
  "sample_draws 5 = 9007199254740991" "sample_draws 6 = 0" "sample_draws 7 = 0"
  "sample_draws 8 = 0" "sample_draws 9 = 0" "sample_draws 10 = 0" "sample_draws 11 = 0"
  "sample_draws 12 = 0" "sample_draws 13 = 0" "sample_draws 14 = 0" "sample_draws 15 = 0"
  "sample_draws 16 = 0" "sample_draws 17 = 0"
  by (simp_all add: sample_draws_def)

lemma sample_decisions:
  "uniform (1 / 10) 10 (sample_rng 0) = (1 / 10, sample_rng 1)"
  "execute_strategy ''Sniper'' (1 / 10) (sample_rng 1) = ((''buy'', 40), sample_rng 3)"
  "execute_strategy ''Hodler'' (1 / 10) (sample_rng 3) = ((''hold'', 0), sample_rng 4)"
  "execute_strategy ''Degen'' (1 / 10) (sample_rng 4) = ((''hold'', 0), sample_rng 5)"
  "execute_strategy ''CopyTrader'' (1 / 10) (sample_rng 5) = ((''hold'', 0), sample_rng 6)"
  "execute_strategy ''Whale'' (1 / 10) (sample_rng 6) = ((''buy'', 40), sample_rng 8)"
  by (simp_all add: uniform_def execute_strategy_def sample_random sample_randint
      sample_draws_values del: One_nat_def)

lemma sample_decisions_2:
  "uniform (1 / 10) 10 (sample_rng 8) = (1 / 10, sample_rng 9)"
  "execute_strategy ''Sniper'' (1 / 10) (sample_rng 9) = ((''buy'', 30), sample_rng 11)"
  "execute_strategy ''Hodler'' (1 / 10) (sample_rng 11) = ((''buy'', 20), sample_rng 13)"
  "execute_strategy ''Degen'' (1 / 10) (sample_rng 13) = ((''buy'', 15), sample_rng 15)"
  "execute_strategy ''CopyTrader'' (1 / 10) (sample_rng 15) = ((''sell'', 10), sample_rng 17)"
  "execute_strategy ''Whale'' (1 / 10) (sample_rng 17) = ((''buy'', 40), sample_rng 19)"
  by (simp_all add: uniform_def execute_strategy_def sample_random sample_randint
      sample_draws_values sample_draws_def del: One_nat_def)

lemma sample_trade:
  "trade_agents sample_agents (1 / 10) (sample_rng 1) (zero_balances sample_agents) =
     Inr (sample_rng 8, sample_balances)"
  by (simp add: sample_agents_list sample_sniper_def sample_decisions zero_balances_lookup
      sample_balances_def del: One_nat_def)

lemma sample_trade_2:
  "trade_agents sample_agents (1 / 10) (sample_rng 9) (zero_balances sample_agents) =
     Inr (sample_rng 19, sample_balances_2)"
  by (simp add: sample_agents_list sample_sniper_def sample_decisions_2 zero_balances_lookup
      sample_balances_2_def del: One_nat_def)

lemma sample_winner:
  "find_winner sample_agents sample_balances 0 None = Inr (40, Some sample_sniper)"
  by (simp add: sample_agents_list sample_sniper_def sample_balances_def zero_balances_lookup)

lemma sample_step_1: "step sample_agents sample_init = sample_state_1"
  by (simp add: step_def sample_init_def market_loop_init_def round_start_def sample_fund
      sample_betting sample_clock_next sample_times_values sample_state_1_def
      sample_calls_1_def del: One_nat_def)

lemma sample_step_2: "step sample_agents sample_state_1 = sample_state_2"
  by (simp add: step_def sample_state_1_def betting_iter_def sample_clock_next
      sample_times_values sample_state_2_def update_state_def live_state_init_def
      del: One_nat_def)

lemma sample_step_3: "step sample_agents sample_state_2 = sample_state_3"
  by (simp add: step_def sample_state_2_def betting_iter_def sample_betting
      sample_clock_next sample_times_values sample_state_3_def sample_calls_3_def
      del: One_nat_def)

lemma sample_step_4: "step sample_agents sample_state_3 = sample_state_4"
  by (simp add: step_def sample_state_3_def game_tick_def sample_decisions sample_trade
      sample_winner sample_end_round sample_clock_next sample_times_values
      sample_state_4_def sample_entry_def sample_calls_4_def
      history_append_def update_state_def py_int_def Let_def
      del: One_nat_def)

lemma sample_step_5: "step sample_agents sample_state_4 = sample_state_5"
  by (simp add: step_def sample_state_4_def round_start_def sample_fund
      sample_betting sample_clock_next sample_times_values sample_state_5_def
      sample_calls_5_def sample_calls_1_def del: One_nat_def)

lemma sample_step_6: "step sample_agents sample_state_5 = sample_state_6"
  by (simp add: step_def sample_state_5_def betting_iter_def sample_clock_next
      sample_times_values sample_state_6_def update_state_def del: One_nat_def)

lemma sample_step_7: "step sample_agents sample_state_6 = sample_state_7"
  by (simp add: step_def sample_state_6_def betting_iter_def sample_betting
      sample_clock_next sample_times_values sample_state_7_def sample_calls_7_def
      del: One_nat_def)

lemma sample_step_8: "step sample_agents sample_state_7 = sample_state_8"
  by (simp add: step_def sample_state_7_def game_tick_def sample_decisions_2 sample_trade_2
      sample_clock_next sample_times_values
      sample_state_8_def sample_entry_2_def
      history_append_def update_state_def py_int_def Let_def
      del: One_nat_def)

lemma sample_run:
  "run sample_agents 0 sample_init = sample_init"
  "run sample_agents 1 sample_init = sample_state_1"
  "run sample_agents 2 sample_init = sample_state_2"
  "run sample_agents 3 sample_init = sample_state_3"
  "run sample_agents 4 sample_init = sample_state_4"
  "run sample_agents 5 sample_init = sample_state_5"
  "run sample_agents 6 sample_init = sample_state_6"
  "run sample_agents 7 sample_init = sample_state_7"
  "run sample_agents 8 sample_init = sample_state_8"
  by (simp_all add: eval_nat_numeral sample_step_1 sample_step_2 sample_step_3 sample_step_4
      sample_step_5 sample_step_6 sample_step_7 sample_step_8)

lemma sample_pcs:
  "pc sample_init = RoundStart" "pc sample_state_1 = BettingLoop"
  "pc sample_state_2 = BettingLoop" "pc sample_state_3 = GameLoop"
  "pc sample_state_4 = RoundStart" "pc sample_state_5 = BettingLoop"
  "pc sample_state_6 = BettingLoop" "pc sample_state_7 = GameLoop"
  "pc sample_state_8 = GameLoop"
  by (simp_all add: sample_init_def market_loop_init_def sample_state_1_def
      sample_state_2_def sample_state_3_def sample_state_4_def sample_state_5_def
      sample_state_6_def sample_state_7_def sample_state_8_def)

lemma sample_balances_values:
  "sample_balances ''Agent_Sniper'' = Some 40" "sample_balances ''Agent_Hodler'' = Some 0"
  "sample_balances ''Agent_Degen'' = Some 0" "sample_balances ''Agent_CopyTrader'' = Some 0"
  "sample_balances ''Agent_Whale'' = Some 40"
  by (simp_all add: sample_balances_def zero_balances_lookup sample_agents_list
      sample_sniper_def)

lemma strict_node_ask: "ask c (strict_node cs) = strict_node (cs @ [c])"
  by (simp add: ask_def strict_node_def)

lemma strict_node_reply: "replies (strict_node cs) k = strict_reply"
  by (simp add: strict_node_def)

section \<open>The claims\<close>

text \<open>
  C1, as the code has it. When a tick ends the game phase, the settlement block is entered
  exactly when some participant has a positive round balance, and then for the first
  participant in iteration order among those holding the maximum: everybody before the
  winner has strictly less, everybody after has at most as much. The block reads the
  nonce and, when that succeeds, submits \<open>endRound\<close> for the winner. When nobody has a
  positive balance the node is not called at all.
\<close>

theorem settlement_first_maximum:
  assumes "s = run agents m (market_loop_init g c L)"
    and "pc s = GameLoop" and "pc (step agents s) = RoundStart"
  shows "((\<forall>x\<in>set agents. \<forall>b. round_balances (step agents s) (name x) = Some b \<longrightarrow> b \<le> 0) \<and>
          w3 (step agents s) = w3 s)
       \<or> (\<exists>pre a post h. agents = pre @ a # post \<and>
             round_balances (step agents s) (name a) = Some h \<and> 0 < h \<and>
             (\<forall>x\<in>set pre. \<forall>b. round_balances (step agents s) (name x) = Some b \<longrightarrow> b < h) \<and>
             (\<forall>x\<in>set post. \<forall>b. round_balances (step agents s) (name x) = Some b \<longrightarrow> b \<le> h) \<and>
             calls (w3 (step agents s)) =
               calls (w3 s) @ GetTransactionCount #
                 (case transaction_count (replies (w3 s) 0) of
                    None \<Rightarrow> []
                  | Some nonce \<Rightarrow> [SendRawTransaction (EndRound (address a)) nonce]))"
proof -
  have sub: "name ` set agents \<subseteq> dom (round_balances s)"
    using reachable_invariant [of agents m g c L] assms(1,2) by simp
  from trade_agents_dom [OF sub] obtain g2 rb
    where t: "trade_agents agents (fst (uniform (1 / 10) 10 (gen s)))
             (snd (uniform (1 / 10) 10 (gen s))) (round_balances s) = Inr (g2, rb)"
      and d: "dom rb = dom (round_balances s)" by blast
  have rb: "round_balances (step agents s) = rb"
    using game_tick_fields(2) [OF t] assms(2) by (simp add: step_def)
  from find_winner_total [of agents rb 0 None] sub d obtain h w
    where fw: "find_winner agents rb 0 None = Inr (h, w)" by auto
  have over: "clk s 1 - start_time s > 90"
    using game_tick_pc(1) [OF t fw assms(2)] assms(2,3) by (simp add: step_def split: if_splits)
  have w3': "w3 (step agents s) = end_round w (w3 s)"
    using game_tick_pc(2) [OF t fw assms(2)] assms(2) over by (simp add: step_def)
  from find_winner_first_max [OF fw] show ?thesis
  proof
    assume "(\<forall>x\<in>set agents. \<forall>b. rb (name x) = Some b \<longrightarrow> b \<le> 0) \<and> h = 0 \<and> w = None"
    then show ?thesis using rb w3' by (simp add: end_round_def)
  next
    assume "\<exists>pre a post. agents = pre @ a # post \<and> w = Some a \<and> rb (name a) = Some h \<and> 0 < h \<and>
             (\<forall>x\<in>set pre. \<forall>b. rb (name x) = Some b \<longrightarrow> b < h) \<and>
             (\<forall>x\<in>set post. \<forall>b. rb (name x) = Some b \<longrightarrow> b \<le> h)"
    then obtain pre a post where p: "agents = pre @ a # post" "w = Some a"
      "rb (name a) = Some h" "0 < h"
      "\<forall>x\<in>set pre. \<forall>b. rb (name x) = Some b \<longrightarrow> b < h"
      "\<forall>x\<in>set post. \<forall>b. rb (name x) = Some b \<longrightarrow> b \<le> h" by blast
    have "calls (w3 (step agents s)) =
               calls (w3 s) @ GetTransactionCount #
                 (case transaction_count (replies (w3 s) 0) of
                    None \<Rightarrow> []
                  | Some nonce \<Rightarrow> [SendRawTransaction (EndRound (address a)) nonce])"
      using w3' p(2) end_round_calls [of a "w3 s"] by simp
    with p rb show ?thesis by blast
  qed
qed

text \<open>
  The sample run at the end of its first game phase: the Sniper holds the maximum of 40.
\<close>

theorem settlement_first_maximum_witness:
  "pc (run sample_agents 3 sample_init) = GameLoop \<and>
   pc (step sample_agents (run sample_agents 3 sample_init)) = RoundStart \<and>
   round_balances (step sample_agents (run sample_agents 3 sample_init)) ''Agent_Sniper''
     = Some 40 \<and>
   (((\<forall>x\<in>set sample_agents. \<forall>b.
        round_balances (step sample_agents (run sample_agents 3 sample_init)) (name x) = Some b
          \<longrightarrow> b \<le> 0) \<and>
      w3 (step sample_agents (run sample_agents 3 sample_init)) =
        w3 (run sample_agents 3 sample_init))
    \<or> (\<exists>pre a post h. sample_agents = pre @ a # post \<and>
         round_balances (step sample_agents (run sample_agents 3 sample_init)) (name a) = Some h \<and>
         0 < h \<and>
         (\<forall>x\<in>set pre. \<forall>b.
            round_balances (step sample_agents (run sample_agents 3 sample_init)) (name x) = Some b
              \<longrightarrow> b < h) \<and>
         (\<forall>x\<in>set post. \<forall>b.
            round_balances (step sample_agents (run sample_agents 3 sample_init)) (name x) = Some b
              \<longrightarrow> b \<le> h) \<and>
         calls (w3 (step sample_agents (run sample_agents 3 sample_init))) =
           calls (w3 (run sample_agents 3 sample_init)) @ GetTransactionCount #
             (case transaction_count (replies (w3 (run sample_agents 3 sample_init)) 0) of
                None \<Rightarrow> []
              | Some nonce \<Rightarrow> [SendRawTransaction (EndRound (address a)) nonce])))"
proof -
  have a: "run sample_agents 3 sample_init =
           run sample_agents 3 (market_loop_init (sample_rng 0) (sample_clock 0) (sample_node []))"
    by (simp add: sample_init_def)
  have b: "pc (run sample_agents 3 sample_init) = GameLoop"
    by (simp add: sample_run sample_state_3_def)
  have c: "pc (step sample_agents (run sample_agents 3 sample_init)) = RoundStart"
    by (simp add: sample_run sample_step_4 sample_state_4_def)
  have d: "round_balances (step sample_agents (run sample_agents 3 sample_init)) ''Agent_Sniper''
     = Some 40"
    by (simp add: sample_run sample_step_4 sample_state_4_def sample_balances_def)
  from settlement_first_maximum [OF a b c] b c d show ?thesis by blast
qed

text \<open>
  C1 as stated fails: in the sample run the Sniper and the Whale share the maximum of 40
  at the end of the first game phase, and \<open>endRound\<close> is submitted for the Sniper, the first
  of the two in iteration order.
\<close>

theorem settlement_on_tie_counterexample:
  "pc (run sample_agents 3 sample_init) = GameLoop \<and>
   pc (run sample_agents 4 sample_init) = RoundStart \<and>
   round_balances (run sample_agents 4 sample_init) ''Agent_Sniper'' = Some 40 \<and>
   round_balances (run sample_agents 4 sample_init) ''Agent_Hodler'' = Some 0 \<and>
   round_balances (run sample_agents 4 sample_init) ''Agent_Degen'' = Some 0 \<and>
   round_balances (run sample_agents 4 sample_init) ''Agent_CopyTrader'' = Some 0 \<and>
   round_balances (run sample_agents 4 sample_init) ''Agent_Whale'' = Some 40 \<and>
   calls (w3 (run sample_agents 4 sample_init)) =
     calls (w3 (run sample_agents 3 sample_init)) @
       [GetTransactionCount, SendRawTransaction (EndRound ''0xAgent_Sniper'') 7]"
  by (simp add: sample_run sample_pcs)
     (simp add: sample_state_3_def sample_state_4_def sample_balances_values sample_node_def
      sample_calls_4_def)

text \<open>
  C2, as the code has it. From any reachable state, after \<open>k > 0\<close> ticks that all started
  inside the game phase, the published snapshot carries the phase \<open>"ROUND"\<close>, the end
  time \<open>start_time + 90\<close> of the state the ticks started from, and the history buffer
  itself, whose length is the length it had before those ticks plus \<open>k\<close>, capped at 50.
\<close>

theorem trading_snapshot:
  assumes "s0 = run agents m (market_loop_init g c L)"
    and "0 < k" and "\<forall>j<k. pc (run agents j s0) = GameLoop"
  shows "phase (live_state (run agents k s0)) = ''ROUND'' \<and>
         roundEndTime (live_state (run agents k s0)) = start_time s0 + 90 \<and>
         history (live_state (run agents k s0)) = hist (run agents k s0) \<and>
         length (history (live_state (run agents k s0))) = min 50 (length (hist s0) + k)"
proof -
  from assms(2,3) have pc0: "pc s0 = GameLoop" by force
  have inv: "name ` set agents \<subseteq> dom (round_balances s0)" "length (hist s0) \<le> 50"
    using reachable_invariant [of agents m g c L] assms(1) pc0 by simp_all
  from ticks_invariant [OF inv assms(3)] assms(2) show ?thesis by simp
qed

text \<open>
  The first tick of the second game phase of the sample run.
\<close>

theorem trading_snapshot_witness:
  "0 < (1::nat) \<and> pc (run sample_agents 0 (run sample_agents 7 sample_init)) = GameLoop \<and>
   start_time (run sample_agents 7 sample_init) = 700 \<and>
   length (hist (run sample_agents 7 sample_init)) = 1 \<and>
   phase (live_state (run sample_agents 1 (run sample_agents 7 sample_init))) = ''ROUND'' \<and>
   roundEndTime (live_state (run sample_agents 1 (run sample_agents 7 sample_init))) =
     start_time (run sample_agents 7 sample_init) + 90 \<and>
   length (history (live_state (run sample_agents 1 (run sample_agents 7 sample_init)))) =
     min 50 (length (hist (run sample_agents 7 sample_init)) + 1)"
proof -
  have a: "run sample_agents 7 sample_init =
           run sample_agents 7 (market_loop_init (sample_rng 0) (sample_clock 0) (sample_node []))"
    by (simp add: sample_init_def)
  have b: "\<forall>j<1. pc (run sample_agents j (run sample_agents 7 sample_init)) = GameLoop"
    by (simp add: sample_run sample_pcs)
  have c: "0 < (1::nat)" by simp
  have d: "start_time (run sample_agents 7 sample_init) = 700"
    "length (hist (run sample_agents 7 sample_init)) = 1"
    by (simp_all add: sample_run) (simp_all add: sample_state_7_def)
  have b0: "pc (run sample_agents 0 (run sample_agents 7 sample_init)) = GameLoop"
    using b by simp
  from trading_snapshot [OF a c b] b0 c d show ?thesis by blast
qed

text \<open>
  C2 as stated fails: the first snapshot of the second game phase of the sample run has
  the phase \<open>"ROUND"\<close>, not \<open>"TRADING"\<close>, and holds two entries after one tick of that
  phase, since the entry of the first round is still there.
\<close>

theorem trading_snapshot_counterexample:
  "pc (run sample_agents 6 sample_init) = BettingLoop \<and>
   pc (run sample_agents 7 sample_init) = GameLoop \<and>
   phase (live_state (run sample_agents 8 sample_init)) = ''ROUND'' \<and>
   phase (live_state (run sample_agents 8 sample_init)) \<noteq> ''TRADING'' \<and>
   length (history (live_state (run sample_agents 8 sample_init))) = 2"
  by (simp add: sample_run sample_pcs) (simp add: sample_state_8_def)

text \<open>
  C3, as the code has it. The round balances are set to 0 for every participant (and hold
  nothing else) at the step that leaves the betting loop and enters the game phase. The
  step that starts a round and the betting iterations that publish leave the balances as
  they were.
\<close>

theorem balances_zero_at_trading_start:
  "(pc s = BettingLoop \<and> pc (step agents s) = GameLoop \<longrightarrow>
      (\<forall>a\<in>set agents. round_balances (step agents s) (name a) = Some 0) \<and>
      (\<forall>nm b. round_balances (step agents s) nm = Some b \<longrightarrow> b = 0)) \<and>
   (pc s = RoundStart \<or> (pc s = BettingLoop \<and> pc (step agents s) = BettingLoop) \<longrightarrow>
      round_balances (step agents s) = round_balances s)"
  by (auto simp: step_def betting_iter_frame round_start_frame zero_balances_lookup
      split: if_splits)

text \<open>
  The second round of the sample run: the Sniper still holds 40 during betting and 0 once
  the game phase starts.
\<close>

theorem balances_zero_at_trading_start_witness:
  "pc sample_state_6 = BettingLoop \<and> pc (step sample_agents sample_state_6) = GameLoop \<and>
   round_balances sample_state_6 ''Agent_Sniper'' = Some 40 \<and>
   round_balances (step sample_agents sample_state_6) (name sample_sniper) = Some 0 \<and>
   pc sample_state_4 = RoundStart \<and>
   round_balances (step sample_agents sample_state_4) = round_balances sample_state_4"
proof -
  have a: "pc sample_state_6 = BettingLoop" "pc sample_state_4 = RoundStart"
    by (rule sample_pcs)+
  have b: "pc (step sample_agents sample_state_6) = GameLoop"
    by (simp add: sample_step_7 sample_pcs)
  have c: "round_balances sample_state_6 ''Agent_Sniper'' = Some 40"
    by (simp add: sample_state_6_def sample_balances_values)
  have d: "sample_sniper \<in> set sample_agents" by (simp add: sample_agents_list)
  from balances_zero_at_trading_start [of sample_state_6 sample_agents]
    balances_zero_at_trading_start [of sample_state_4 sample_agents] a b c d
  show ?thesis by blast
qed

text \<open>
  C3 as stated fails: when the betting phase of the second round of the sample run starts,
  the round balance of the Sniper is 40.
\<close>

theorem balances_at_betting_start_counterexample:
  "pc (run sample_agents 4 sample_init) = RoundStart \<and>
   pc (run sample_agents 5 sample_init) = BettingLoop \<and>
   round_balances (run sample_agents 5 sample_init) ''Agent_Sniper'' = Some 40 \<and>
   round_balances (run sample_agents 5 sample_init) ''Agent_Sniper'' \<noteq> Some 0"
  by (simp add: sample_run sample_pcs) (simp add: sample_state_5_def sample_balances_values)

text \<open>
  C4. For every strategy of \<open>STRATEGIES\<close> and every price in \<open>[0.1, 10]\<close>, whatever the
  generator draws: a hold carries the quantity 0; any other action is a buy or a sell
  whose quantity lies in the range of the strategy; every range lies in \<open>[0, 80]\<close>, so the
  quantity is a non-negative integer of at most 80.
\<close>

theorem decision_quantity_in_range:
  assumes "strat \<in> set STRATEGIES" and "1 / 10 \<le> p" and "p \<le> 10"
  shows "(fst (fst (execute_strategy strat p g)) = ''hold'' \<longrightarrow>
            snd (fst (execute_strategy strat p g)) = 0) \<and>
         (fst (fst (execute_strategy strat p g)) \<noteq> ''hold'' \<longrightarrow>
            (fst (fst (execute_strategy strat p g)) = ''buy'' \<or>
             fst (fst (execute_strategy strat p g)) = ''sell'') \<and>
            fst (quantity_range strat) \<le> snd (fst (execute_strategy strat p g)) \<and>
            snd (fst (execute_strategy strat p g)) \<le> snd (quantity_range strat)) \<and>
         0 \<le> fst (quantity_range strat) \<and> snd (quantity_range strat) \<le> 80 \<and>
         0 \<le> snd (fst (execute_strategy strat p g)) \<and>
         snd (fst (execute_strategy strat p g)) \<le> 80"
  using execute_strategy_shape [of strat p g] quantity_range_within [of strat]
  by auto

text \<open>
  The Whale at the price 0.1 in the sample run buys 40.
\<close>

theorem decision_quantity_in_range_witness:
  "''Whale'' \<in> set STRATEGIES \<and> (1 / 10 :: real) \<le> 1 / 10 \<and> (1 / 10 :: real) \<le> 10 \<and>
   fst (execute_strategy ''Whale'' (1 / 10) (sample_rng 6)) = (''buy'', 40) \<and>
   fst (quantity_range ''Whale'') \<le> 40 \<and> 40 \<le> snd (quantity_range ''Whale'')"
  using decision_quantity_in_range [of "''Whale''" "1 / 10" "sample_rng 6"]
  by (simp add: STRATEGIES_def sample_decisions)



text \<open>
  C6. In every reachable state of the market loop every round balance is non-negative.
\<close>

theorem round_balances_nonneg:
  assumes "round_balances (run agents n (market_loop_init g c L)) nm = Some b"
  shows "0 \<le> b"
  using reachable_invariant [of agents n g c L] assms by blast

text \<open>
  The Sniper after the first game phase of the sample run.
\<close>

theorem round_balances_nonneg_witness:
  "round_balances (run sample_agents 4 sample_init) ''Agent_Sniper'' = Some 40 \<and> (0::int) \<le> 40"
  using round_balances_nonneg [of sample_agents 4 "sample_rng 0" "sample_clock 0"
      "sample_node []" "''Agent_Sniper''" 40]
  unfolding sample_init_def [symmetric]
  by (simp add: sample_run) (simp add: sample_state_4_def sample_balances_values)

text \<open>
  C7 on \<open>src/backend/main.py\<close>. On a node that rejects the registration of the Degen,
  \<open>main\<close> ends with the error after the third agent: the last two agents are never
  looked at and the market loop is not entered. On the same node \<open>src/main.py\<close> reaches
  the market loop, and its first step enters the betting phase.
\<close>

theorem backend_registration_failure_aborts:
  "backend_main sample_agents (strict_node []) =
     (Some RpcError, strict_node (sample_funding @
        [GetTransactionCount,
         IsAgent ''0xAgent_Sniper'', SendRawTransaction (RegisterAgent ''0xAgent_Sniper'') 7,
         IsAgent ''0xAgent_Hodler'', SendRawTransaction (RegisterAgent ''0xAgent_Hodler'') 8,
         IsAgent ''0xAgent_Degen'', SendRawTransaction (RegisterAgent ''0xAgent_Degen'') 9])) \<and>
   pc (blockchain_startup sample_agents (sample_rng 0) (sample_clock 0) (strict_node []))
     = RoundStart \<and>
   pc (step sample_agents
        (blockchain_startup sample_agents (sample_rng 0) (sample_clock 0) (strict_node [])))
     = BettingLoop"
  by (simp add: backend_main_def backend_fund_agents_def backend_register_agents_def
      blockchain_startup_def fund_agents_def fund_one_def register_agents_def register_one_def
      get_transaction_count_def get_balance_def isAgent_def send_transaction_def
      strict_node_ask strict_node_reply strict_reply_def sample_agents_list sample_sniper_def
      sample_funding_def market_loop_init_def step_def round_start_def set_betting_active_def
      time_time_def)



text \<open>
  C9. A Sniper, a Hodler or a Whale never decides to sell, at any price and whatever the
  generator draws. With distinct agent names (those of \<open>create_agents\<close> are), over any
  number of ticks of a game phase the round balance of such an agent does not decrease.
\<close>

theorem no_sell_strategies_monotone:
  assumes "strategy a = ''Sniper'' \<or> strategy a = ''Hodler'' \<or> strategy a = ''Whale''"
    and "a \<in> set agents" and "distinct (map name agents)"
    and "\<forall>j<k. pc (run agents j s) = GameLoop"
    and "round_balances s (name a) = Some b"
  shows "fst (fst (execute_strategy (strategy a) p g)) \<noteq> ''sell'' \<and>
         (\<exists>b'. round_balances (run agents k s) (name a) = Some b' \<and> b \<le> b')"
proof -
  have ns: "fst (fst (execute_strategy (strategy a) p g)) \<noteq> ''sell''"
    using execute_strategy_shape [of "strategy a" p g] assms(1) by auto
  have "\<exists>b'. round_balances (run agents k s) (name a) = Some b' \<and> b \<le> b'"
    using assms(4)
  proof (induction k)
    case 0
    then show ?case using assms(5) by simp
  next
    case (Suc k)
    then obtain b1 where b1: "round_balances (run agents k s) (name a) = Some b1" "b \<le> b1"
      by auto
    from Suc.prems have pc: "pc (run agents k s) = GameLoop" by simp
    from tick_no_sell [OF assms(1,2,3) pc b1(1), of p g] obtain b2
      where "round_balances (step agents (run agents k s)) (name a) = Some b2" "b1 \<le> b2"
      by blast
    then show ?case using b1(2) by auto
  qed
  with ns show ?thesis by blast
qed

text \<open>
  The Sniper over the first tick of the sample run.
\<close>

theorem no_sell_strategies_monotone_witness:
  "strategy sample_sniper = ''Sniper'' \<and> sample_sniper \<in> set sample_agents \<and>
   distinct (map name sample_agents) \<and>
   pc (run sample_agents 0 sample_state_3) = GameLoop \<and>
   round_balances sample_state_3 (name sample_sniper) = Some 0 \<and>
   fst (fst (execute_strategy (strategy sample_sniper) (1 / 10) (sample_rng 1))) \<noteq> ''sell'' \<and>
   (\<exists>b'. round_balances (run sample_agents 1 sample_state_3) (name sample_sniper) = Some b' \<and>
         0 \<le> b')"
proof -
  have a: "strategy sample_sniper = ''Sniper'' \<or> strategy sample_sniper = ''Hodler'' \<or>
           strategy sample_sniper = ''Whale''"
    by (simp add: sample_sniper_def)
  have a': "strategy sample_sniper = ''Sniper''" by (simp add: sample_sniper_def)
  have b: "sample_sniper \<in> set sample_agents" by (simp add: sample_agents_list)
  have c: "distinct (map name sample_agents)"
    by (simp add: sample_agents_list sample_sniper_def)
  have d: "\<forall>j<1. pc (run sample_agents j sample_state_3) = GameLoop"
    by (simp add: sample_pcs)
  have e: "round_balances sample_state_3 (name sample_sniper) = Some 0"
    by (simp add: sample_state_3_def zero_balances_lookup b)
  have d0: "pc (run sample_agents 0 sample_state_3) = GameLoop" by (simp add: sample_pcs)
  from no_sell_strategies_monotone [OF a b c d e, of "1 / 10" "sample_rng 1"] a' b c d0 e
  show ?thesis by blast
qed

text \<open>
  C10. The history buffer starts empty when the market loop starts. The step that starts
  a round and every betting iteration leave it unchanged, a betting iteration that
  publishes puts exactly the buffer into the snapshot, and over any number of steps the
  buffer changes by appends only (with the eviction of the oldest beyond 50): nothing
  clears it at a round boundary.
\<close>

theorem history_kept_across_rounds:
  "hist (market_loop_init g c L) = [] \<and>
   (pc s = RoundStart \<or> pc s = BettingLoop \<longrightarrow> hist (step agents s) = hist s) \<and>
   (pc s = BettingLoop \<and> pc (step agents s) = BettingLoop \<longrightarrow>
      history (live_state (step agents s)) = hist s) \<and>
   (\<exists>es. hist (run agents n s) = foldl history_append (hist s) es \<and> length es \<le> n)"
proof -
  have a: "hist (market_loop_init g c L) = []" by (simp add: market_loop_init_def)
  have b: "pc s = RoundStart \<or> pc s = BettingLoop \<longrightarrow> hist (step agents s) = hist s"
    by (auto simp: step_def round_start_frame betting_iter_frame)
  have c: "pc s = BettingLoop \<and> pc (step agents s) = BettingLoop \<longrightarrow>
      history (live_state (step agents s)) = hist s"
    by (auto simp: step_def betting_iter_frame update_state_def split: if_splits)
  show ?thesis using a b c run_hist [of agents n s] by blast
qed

text \<open>
  The betting phase of the second round of the sample run publishes the entry of the
  first round.
\<close>

theorem history_kept_across_rounds_witness:
  "pc sample_state_5 = BettingLoop \<and> pc (step sample_agents sample_state_5) = BettingLoop \<and>
   hist sample_state_5 = [sample_entry] \<and>
   hist (step sample_agents sample_state_5) = hist sample_state_5 \<and>
   history (live_state (step sample_agents sample_state_5)) = hist sample_state_5"
proof -
  have a: "pc sample_state_5 = BettingLoop" by (rule sample_pcs)
  have b: "pc (step sample_agents sample_state_5) = BettingLoop"
    by (simp add: sample_step_6 sample_pcs)
  have c: "hist sample_state_5 = [sample_entry]" by (simp add: sample_state_5_def)
  from history_kept_across_rounds [of "sample_rng 0" "sample_clock 0" "sample_node []"
      sample_state_5 sample_agents 0] a b c
  show ?thesis by blast
qed

end
